theory Spec2Isabelle
  imports Complex_Main
begin

section \<open>Eco5 backend: values, environment and requests\<close>

text \<open>
  The development embeds \<^verbatim>\<open>src/backend/server.ts\<close> (the Express application), the
  validation schemas of \<^verbatim>\<open>src/backend/schema.ts\<close> and the table definitions that are
  shipped with them. Handlers are functions from the database before the request to the
  database after it and the response; everything a handler reads from outside (the clock,
  \<^verbatim>\<open>randomUUID\<close>, the JWT library, \<^verbatim>\<open>Date\<close>) is an explicit argument.

  Outside the model: the middleware before the routes (CORS, the body parser with its
  errors and size limit, the request log, static files, of which none is taken to lie under
  \<^verbatim>\<open>/api\<close>), the methods \<^verbatim>\<open>HEAD\<close> and \<^verbatim>\<open>OPTIONS\<close>, and a database that cannot be
  reached. A string is its sequence of UTF-8 bytes; \<open>toLowerCase\<close> and \<open>trim\<close> act on
  the ASCII range only. A JSON number and a \<^verbatim>\<open>NUMERIC\<close> value are the real number they
  denote.
\<close>

subsection \<open>JSON and JavaScript values\<close>

datatype json =
    JNull
  | JBool bool
  | JNum real
  | JStr string
  | JArr "json list"
  | JObj "(string \<times> json) list"

text \<open>Property access \<^verbatim>\<open>o.k\<close> on a parsed body; \<open>None\<close> is \<^verbatim>\<open>undefined\<close>.
  \<^verbatim>\<open>express.json\<close> only hands objects and arrays to a handler, and an array has none
  of the properties the handlers read.\<close>

fun field :: "string \<Rightarrow> json \<Rightarrow> json option" where
  "field k (JObj kvs) = map_of kvs k"
| "field k _ = None"

text \<open>JavaScript truthiness of a value that came out of JSON.\<close>

fun truthy :: "json \<Rightarrow> bool" where
  "truthy JNull = False"
| "truthy (JBool b) = b"
| "truthy (JNum x) = (x \<noteq> 0)"
| "truthy (JStr s) = (s \<noteq> [])"
| "truthy (JArr _) = True"
| "truthy (JObj _) = True"

fun truthy_opt :: "json option \<Rightarrow> bool" where
  "truthy_opt None = False"
| "truthy_opt (Some j) = truthy j"

text \<open>Values a validator hands back: JSON scalars and \<^verbatim>\<open>Date\<close> objects (milliseconds
  since the epoch).\<close>

datatype zval = VNull | VBool bool | VNum real | VStr string | VDate int

fun truthy_val :: "zval \<Rightarrow> bool" where
  "truthy_val VNull = False"
| "truthy_val (VBool b) = b"
| "truthy_val (VNum x) = (x \<noteq> 0)"
| "truthy_val (VStr s) = (s \<noteq> [])"
| "truthy_val (VDate _) = True"

subsection \<open>Strings\<close>

text \<open>\<^verbatim>\<open>String.prototype.toLowerCase\<close> and \<^verbatim>\<open>trim\<close> on the ASCII range (a HOL
  character is one byte), and \<^verbatim>\<open>split\<close> on a one-character separator.\<close>

definition to_lower_char :: "char \<Rightarrow> char" where
  "to_lower_char c =
     (if (65::nat) \<le> of_char c \<and> of_char c \<le> (90::nat) then char_of (of_char c + (32::nat)) else c)"

definition toLowerCase :: "string \<Rightarrow> string" where
  "toLowerCase s = map to_lower_char s"

definition is_space :: "char \<Rightarrow> bool" where
  "is_space c = (c \<in> set [CHR 0x09, CHR 0x0A, CHR 0x0B, CHR 0x0C, CHR 0x0D, CHR 0x20])"

definition trim :: "string \<Rightarrow> string" where
  "trim s = rev (dropWhile is_space (rev (dropWhile is_space s)))"

fun split_str :: "char \<Rightarrow> string \<Rightarrow> string list" where
  "split_str c [] = [[]]"
| "split_str c (x # xs) =
     (if x = c then [] # split_str c xs
      else (case split_str c xs of w # ws \<Rightarrow> (x # w) # ws | [] \<Rightarrow> [[x]]))"

text \<open>
  \<^verbatim>\<open>decodeURIComponent\<close>, which Express applies to every route parameter. Each
  \<^verbatim>\<open>%XX\<close> stands for one octet; an octet from \<^verbatim>\<open>0x80\<close> on must begin or continue a
  well-formed UTF-8 sequence made of escapes only (no overlong form, no surrogate, nothing
  beyond \<^verbatim>\<open>U+10FFFF\<close>). \<open>None\<close> is the \<^verbatim>\<open>URIError\<close>.
\<close>

definition hex_val :: "char \<Rightarrow> nat option" where
  "hex_val c =
     (if (48::nat) \<le> of_char c \<and> of_char c \<le> (57::nat) then Some (of_char c - 48)
      else if (65::nat) \<le> of_char c \<and> of_char c \<le> (70::nat) then Some (of_char c - 55)
      else if (97::nat) \<le> of_char c \<and> of_char c \<le> (102::nat) then Some (of_char c - 87)
      else None)"

text \<open>The octets of a text, each with the mark whether it was written as an escape.\<close>

fun unescape :: "string \<Rightarrow> (bool \<times> nat) list option" where
  "unescape [] = Some []"
| "unescape (c # s) =
     (if c = CHR ''%'' then
        (case s of
           a # b # rest \<Rightarrow>
             (case hex_val a of
                None \<Rightarrow> None
              | Some x \<Rightarrow>
                  (case hex_val b of
                     None \<Rightarrow> None
                   | Some y \<Rightarrow> map_option ((#) (True, 16 * x + y)) (unescape rest)))
         | _ \<Rightarrow> None)
      else map_option ((#) (False, of_char c)) (unescape s))"

definition continues :: "bool \<times> nat \<Rightarrow> bool" where
  "continues x = (fst x \<and> 128 \<le> snd x \<and> snd x < 192)"

fun utf8_ok :: "(bool \<times> nat) list \<Rightarrow> bool" where
  "utf8_ok [] = True"
| "utf8_ok (x # xs) =
     (if \<not> fst x \<or> snd x < 128 then utf8_ok xs
      else if 194 \<le> snd x \<and> snd x < 224 then
        (case xs of
           x2 # r \<Rightarrow> continues x2 \<and> utf8_ok r
         | _ \<Rightarrow> False)
      else if 224 \<le> snd x \<and> snd x < 240 then
        (case xs of
           x2 # x3 # r \<Rightarrow>
             continues x2 \<and> continues x3
             \<and> (if snd x = 224 then 160 \<le> snd x2 else True)
             \<and> (if snd x = 237 then snd x2 < 160 else True)
             \<and> utf8_ok r
         | _ \<Rightarrow> False)
      else if 240 \<le> snd x \<and> snd x < 245 then
        (case xs of
           x2 # x3 # x4 # r \<Rightarrow>
             continues x2 \<and> continues x3 \<and> continues x4
             \<and> (if snd x = 240 then 144 \<le> snd x2 else True)
             \<and> (if snd x = 244 then snd x2 < 144 else True)
             \<and> utf8_ok r
         | _ \<Rightarrow> False)
      else False)"

definition decodeURIComponent :: "string \<Rightarrow> string option" where
  "decodeURIComponent s =
     (case unescape s of
        None \<Rightarrow> None
      | Some xs \<Rightarrow> if utf8_ok xs then Some (map (\<lambda>x. char_of (snd x)) xs) else None)"

subsection \<open>What the handlers take from their environment\<close>

text \<open>A thrown error, by the \<^verbatim>\<open>name\<close> the handlers look at. A \<open>ZodError\<close> carries the
  offending fields.\<close>

datatype failure = ZodError "string list" | PgError | TypeError | JsonWebTokenError | URIError

text \<open>
  Library behaviour that is not part of the repository is a field of \<open>env\<close>:
  \<^item> \<open>is_email\<close>: the check behind \<^verbatim>\<open>z.string().email()\<close>;
  \<^item> \<open>new_Date\<close>: \<^verbatim>\<open>new Date(v)\<close> for a JSON value \<open>v\<close>, \<open>None\<close> for an invalid date;
  \<^item> \<open>toISOString\<close>: \<^verbatim>\<open>Date.prototype.toISOString\<close>;
  \<^item> \<open>jwt_sign\<close>: \<^verbatim>\<open>jwt.sign(payload, JWT_SECRET, {expiresIn: '7d'})\<close> at a given time;
  \<^item> \<open>jwt_verify\<close>: \<^verbatim>\<open>jwt.verify(token, JWT_SECRET)\<close> at a given time, \<open>None\<close> when it
    throws, the decoded payload otherwise;
  \<^item> \<open>development\<close>: \<^verbatim>\<open>process.env.NODE_ENV === 'development'\<close>;
  \<^item> \<open>error_details\<close>: the \<^verbatim>\<open>{name, message, stack}\<close> object of a thrown error;
  \<^item> \<open>pg_text\<close>: how the driver writes a query parameter that is not a string;
  \<^item> \<open>oversize\<close>: the text is too large for an entry of a database index (the limit is
    on the stored size, which depends on how well the text compresses);
  \<^item> \<open>collate_le\<close>: the order of the database collation on text.
\<close>

record env =
  is_email :: "string \<Rightarrow> bool"
  new_Date :: "json \<Rightarrow> int option"
  toISOString :: "int \<Rightarrow> string"
  jwt_sign :: "int \<Rightarrow> json \<Rightarrow> string"
  jwt_verify :: "int \<Rightarrow> string \<Rightarrow> json option"
  development :: bool
  error_details :: "failure \<Rightarrow> json"
  pg_text :: "json \<Rightarrow> string"
  oversize :: "string \<Rightarrow> bool"
  collate_le :: "string \<Rightarrow> string \<Rightarrow> bool"

text \<open>The effects of one request: the value of \<^verbatim>\<open>randomUUID()\<close> and the reading of the
  clock (\<^verbatim>\<open>new Date()\<close>; two readings within one request are not told apart).\<close>

record io =
  uuid :: string
  now :: int

datatype http_method = GET | POST | PUT | PATCH | DELETE

record request =
  req_method :: http_method
  req_path :: string
  query :: json
  authorization :: "string option"
  body :: json

text \<open>A response: \<^verbatim>\<open>res.status(n).json(v)\<close>, \<^verbatim>\<open>res.sendFile\<close>, or a page Express
  writes by itself: its 404 when no route takes the request, its 400 when a route
  parameter cannot be decoded.\<close>

datatype content = Json json | File string | NoRoute | BadParam

record response =
  status :: nat
  content :: content

definition reply :: "nat \<Rightarrow> json \<Rightarrow> response" where
  "reply n v = \<lparr>status = n, content = Json v\<rparr>"

definition createErrorResponse :: "env \<Rightarrow> io \<Rightarrow> string \<Rightarrow> failure option \<Rightarrow> string \<Rightarrow> json" where
  "createErrorResponse e i message error errorCode =
     JObj ([(''success'', JBool False), (''message'', JStr message),
            (''timestamp'', JStr (toISOString e (now i)))]
           @ (if errorCode \<noteq> [] then [(''error_code'', JStr errorCode)] else [])
           @ (case error of
                Some f \<Rightarrow> if development e then [(''details'', error_details e f)] else []
              | None \<Rightarrow> []))"

section \<open>The relational store\<close>

datatype sqlval = SNull | SText string | SNumeric real

type_synonym row = "(string \<times> sqlval) list"

datatype table =
    users
  | user_dashboards
  | impact_calculators
  | eco_community_forum
  | events
  | resource_library
  | alerts

type_synonym db = "table \<Rightarrow> row list"

text \<open>The \<^verbatim>\<open>CREATE TABLE\<close> statements: primary key, further \<^verbatim>\<open>NOT NULL\<close> columns,
  \<^verbatim>\<open>UNIQUE\<close> columns and foreign keys of each table.\<close>

fun primary_key :: "table \<Rightarrow> string" where
  "primary_key users = ''id''"
| "primary_key user_dashboards = ''user_id''"
| "primary_key impact_calculators = ''id''"
| "primary_key eco_community_forum = ''id''"
| "primary_key events = ''id''"
| "primary_key resource_library = ''id''"
| "primary_key alerts = ''id''"

fun not_null :: "table \<Rightarrow> string list" where
  "not_null users = [''email'', ''name'', ''created_at'', ''password_hash'']"
| "not_null user_dashboards = [''carbon_footprint'']"
| "not_null impact_calculators = [''user_id'']"
| "not_null eco_community_forum = [''user_id'', ''thread_title'', ''content'', ''created_at'']"
| "not_null events = [''event_name'', ''event_date'', ''organizer_id'']"
| "not_null resource_library = [''content_type'', ''title'', ''author_id'']"
| "not_null alerts = [''user_id'', ''alert_type'', ''message'', ''created_at'']"

fun unique_cols :: "table \<Rightarrow> string list" where
  "unique_cols users = [''email'']"
| "unique_cols _ = []"

fun foreign_keys :: "table \<Rightarrow> (string \<times> table \<times> string) list" where
  "foreign_keys users = []"
| "foreign_keys user_dashboards = [(''user_id'', users, ''id'')]"
| "foreign_keys impact_calculators = [(''user_id'', users, ''id'')]"
| "foreign_keys eco_community_forum = [(''user_id'', users, ''id'')]"
| "foreign_keys events = [(''organizer_id'', users, ''id'')]"
| "foreign_keys resource_library = [(''author_id'', users, ''id'')]"
| "foreign_keys alerts = [(''user_id'', users, ''id'')]"

definition col :: "string \<Rightarrow> row \<Rightarrow> sqlval" where
  "col c r = (case map_of r c of Some v \<Rightarrow> v | None \<Rightarrow> SNull)"

text \<open>The database refuses a text parameter that holds a NUL character, whatever the
  statement and whether or not a row matches.\<close>

fun has_nul :: "sqlval \<Rightarrow> bool" where
  "has_nul (SText s) = (CHR 0x00 \<in> set s)"
| "has_nul _ = False"

definition refused :: "sqlval list \<Rightarrow> bool" where
  "refused ps = list_ex has_nul ps"

text \<open>\<open>violates e d t new sets\<close>: writing the column values \<open>sets\<close> into one row of table
  \<open>t\<close>, whose rows are \<open>new\<close> after the statement, breaks a constraint: a null in a
  \<^verbatim>\<open>NOT NULL\<close> column, a key or unique value that a second row holds too or that is too
  large for the index, or a foreign key without its row. Only written columns are checked,
  as the database does.\<close>

fun too_large :: "env \<Rightarrow> sqlval \<Rightarrow> bool" where
  "too_large e (SText s) = oversize e s"
| "too_large e _ = False"

definition violates :: "env \<Rightarrow> db \<Rightarrow> table \<Rightarrow> row list \<Rightarrow> (string \<times> sqlval) list \<Rightarrow> bool" where
  "violates e d t new sets =
     list_ex (\<lambda>(c, v).
        (c \<in> set (primary_key t # not_null t) \<and> v = SNull)
      \<or> (c \<in> set (primary_key t # unique_cols t) \<and> v \<noteq> SNull
           \<and> (1 < count_list (map (col c) new) v \<or> too_large e v))
      \<or> list_ex (\<lambda>(c1, t', c'). c1 = c \<and> v \<noteq> SNull \<and> list_all (\<lambda>r. col c' r \<noteq> v) (d t'))
           (foreign_keys t)) sets"

text \<open>\<^verbatim>\<open>INSERT INTO t (...) VALUES (...)\<close>: the store with the new row, or the error the
  database raises.\<close>

definition sql_insert :: "env \<Rightarrow> db \<Rightarrow> table \<Rightarrow> row \<Rightarrow> failure + db" where
  "sql_insert e d t r =
     (if refused (map snd r) \<or> violates e d t (d t @ [r]) r then Inl PgError
      else Inr (d(t := d t @ [r])))"

text \<open>The rows with \<open>c = v\<close>, in storage order; nothing equals \<^verbatim>\<open>NULL\<close>.\<close>

definition matching :: "db \<Rightarrow> table \<Rightarrow> string \<Rightarrow> sqlval \<Rightarrow> row list" where
  "matching d t c v = filter (\<lambda>r. v \<noteq> SNull \<and> col c r = v) (d t)"

text \<open>\<^verbatim>\<open>SELECT * FROM t WHERE c = $1\<close>: the rows, or the error the database raises.\<close>

definition sql_select :: "db \<Rightarrow> table \<Rightarrow> string \<Rightarrow> sqlval \<Rightarrow> failure + row list" where
  "sql_select d t c v = (if refused [v] then Inl PgError else Inr (matching d t c v))"

text \<open>A select list \<^verbatim>\<open>SELECT c1, c2, ...\<close>.\<close>

definition project :: "string list \<Rightarrow> row \<Rightarrow> row" where
  "project cs r = map (\<lambda>c. (c, col c r)) cs"

definition assign :: "(string \<times> sqlval) list \<Rightarrow> row \<Rightarrow> row" where
  "assign sets r = map (\<lambda>(c, v). (c, case map_of sets c of Some v' \<Rightarrow> v' | None \<Rightarrow> v)) r"

text \<open>\<^verbatim>\<open>UPDATE t SET c1 = v1, ... WHERE kc = kv RETURNING *\<close>: the store after the
  statement and the rows it changed, or the error the database raises.\<close>

definition sql_update ::
  "env \<Rightarrow> db \<Rightarrow> table \<Rightarrow> (string \<times> sqlval) list \<Rightarrow> string \<Rightarrow> sqlval \<Rightarrow> failure + (db \<times> row list)" where
  "sql_update e d t sets kc kv =
     (let hit = (\<lambda>r. kv \<noteq> SNull \<and> col kc r = kv);
          new = map (\<lambda>r. if hit r then assign sets r else r) (d t)
      in if refused (map snd sets @ [kv]) \<or> (list_ex hit (d t) \<and> violates e d t new sets)
         then Inl PgError
         else Inr (d(t := new), map (assign sets) (filter hit (d t))))"

text \<open>A row as the driver hands it to JavaScript. The one \<^verbatim>\<open>NUMERIC\<close> column,
  \<^verbatim>\<open>user_dashboards.carbon_footprint\<close>, arrives as decimal text and both handlers that
  read it apply \<^verbatim>\<open>parseFloat\<close> at once; the model reads it as the number.\<close>

fun js_of_sql :: "sqlval \<Rightarrow> json" where
  "js_of_sql SNull = JNull"
| "js_of_sql (SText s) = JStr s"
| "js_of_sql (SNumeric x) = JNum x"

definition js_fields :: "row \<Rightarrow> (string \<times> json) list" where
  "js_fields r = map (\<lambda>(c, v). (c, js_of_sql v)) r"

definition js_row :: "row \<Rightarrow> json" where
  "js_row r = JObj (js_fields r)"

fun parseFloat :: "sqlval \<Rightarrow> json" where
  "parseFloat (SNumeric x) = JNum x"
| "parseFloat _ = JNull"

text \<open>A JavaScript value as a query parameter: \<^verbatim>\<open>undefined\<close> and \<^verbatim>\<open>null\<close> are
  \<^verbatim>\<open>NULL\<close>, a string is itself.\<close>

fun pg_param :: "env \<Rightarrow> json option \<Rightarrow> sqlval" where
  "pg_param e None = SNull"
| "pg_param e (Some JNull) = SNull"
| "pg_param e (Some (JStr s)) = SText s"
| "pg_param e (Some j) = SText (pg_text e j)"

text \<open>A validated value as a query parameter. No handler passes a boolean or a
  \<^verbatim>\<open>Date\<close> (dates go through \<^verbatim>\<open>toISOString\<close> first).\<close>

fun sql_of :: "zval \<Rightarrow> sqlval" where
  "sql_of (VStr s) = SText s"
| "sql_of (VNum x) = SNumeric x"
| "sql_of _ = SNull"

section \<open>Validation (schema.ts)\<close>

text \<open>
  A schema is data, as in the source: \<^verbatim>\<open>z.object({k: ..., ...})\<close> is a list of keys with
  their field schemas. Parsing a field takes the property of the input, \<open>None\<close> for
  \<^verbatim>\<open>undefined\<close>, and yields \<open>None\<close> for an issue, \<open>Some None\<close> for a valid
  \<^verbatim>\<open>undefined\<close> and \<open>Some (Some v)\<close> for a value. \<^verbatim>\<open>z.coerce.date()\<close> builds
  \<^verbatim>\<open>new Date(input)\<close> and rejects an invalid date; \<^verbatim>\<open>new Date(undefined)\<close> is one.
\<close>

datatype zbase =
    z_string
  | z_string_min nat
  | z_string_email
  | z_number
  | z_number_int_positive
  | z_number_int_nonnegative
  | z_boolean
  | z_coerce_date
  | z_enum "string list"

datatype zschema =
    Base zbase
  | Nullable zschema
  | Optional zschema
  | Default zschema zval

type_synonym zobject = "(string \<times> zschema) list"

definition parse_base :: "env \<Rightarrow> zbase \<Rightarrow> json option \<Rightarrow> zval option" where
  "parse_base e b jo =
     (case jo of
        None \<Rightarrow> None
      | Some j \<Rightarrow>
          (case b of
             z_string \<Rightarrow> (case j of JStr s \<Rightarrow> Some (VStr s) | _ \<Rightarrow> None)
           | z_string_min n \<Rightarrow>
               (case j of JStr s \<Rightarrow> if n \<le> length s then Some (VStr s) else None | _ \<Rightarrow> None)
           | z_string_email \<Rightarrow>
               (case j of JStr s \<Rightarrow> if is_email e s then Some (VStr s) else None | _ \<Rightarrow> None)
           | z_number \<Rightarrow> (case j of JNum x \<Rightarrow> Some (VNum x) | _ \<Rightarrow> None)
           | z_number_int_positive \<Rightarrow>
               (case j of
                  JNum x \<Rightarrow> if x = of_int \<lfloor>x\<rfloor> \<and> 0 < x then Some (VNum x) else None
                | _ \<Rightarrow> None)
           | z_number_int_nonnegative \<Rightarrow>
               (case j of
                  JNum x \<Rightarrow> if x = of_int \<lfloor>x\<rfloor> \<and> 0 \<le> x then Some (VNum x) else None
                | _ \<Rightarrow> None)
           | z_boolean \<Rightarrow> (case j of JBool v \<Rightarrow> Some (VBool v) | _ \<Rightarrow> None)
           | z_coerce_date \<Rightarrow> map_option VDate (new_Date e j)
           | z_enum vs \<Rightarrow>
               (case j of JStr s \<Rightarrow> if s \<in> set vs then Some (VStr s) else None | _ \<Rightarrow> None)))"

fun parse_schema :: "env \<Rightarrow> zschema \<Rightarrow> json option \<Rightarrow> zval option option" where
  "parse_schema e (Base b) jo = map_option Some (parse_base e b jo)"
| "parse_schema e (Nullable s) jo = (if jo = Some JNull then Some (Some VNull) else parse_schema e s jo)"
| "parse_schema e (Optional s) jo = (if jo = None then Some None else parse_schema e s jo)"
| "parse_schema e (Default s v) jo = (if jo = None then Some (Some v) else parse_schema e s jo)"

text \<open>\<^verbatim>\<open>schema.parse(input)\<close>: the input must be an object; every key of the schema is
  parsed, keys the schema does not name are dropped, and the issues of all fields are
  thrown together as one \<open>ZodError\<close>.\<close>

definition parse_fields :: "env \<Rightarrow> zobject \<Rightarrow> (string \<times> json) list \<Rightarrow> (string \<times> zval option option) list" where
  "parse_fields e sch kvs = map (\<lambda>(k, s). (k, parse_schema e s (map_of kvs k))) sch"

fun issues :: "(string \<times> zval option option) list \<Rightarrow> string list" where
  "issues [] = []"
| "issues ((k, None) # rs) = k # issues rs"
| "issues ((k, Some _) # rs) = issues rs"

fun outputs :: "(string \<times> zval option option) list \<Rightarrow> (string \<times> zval) list" where
  "outputs [] = []"
| "outputs ((k, Some (Some v)) # rs) = (k, v) # outputs rs"
| "outputs ((k, _) # rs) = outputs rs"

definition parse :: "env \<Rightarrow> zobject \<Rightarrow> json \<Rightarrow> failure + (string \<times> zval) list" where
  "parse e sch j =
     (case j of
        JObj kvs \<Rightarrow>
          (if issues (parse_fields e sch kvs) = [] then Inr (outputs (parse_fields e sch kvs))
           else Inl (ZodError (issues (parse_fields e sch kvs))))
      | _ \<Rightarrow> Inl (ZodError []))"

text \<open>Reading a validated object: \<^verbatim>\<open>validatedData.k\<close>.\<close>

definition vget :: "(string \<times> zval) list \<Rightarrow> string \<Rightarrow> zval option" where
  "vget v k = map_of v k"

text \<open>The schemas the handlers use, and the update schema of the authentication entity.\<close>

definition createUserInputSchema :: zobject where
  "createUserInputSchema =
     [(''email'', Base z_string_email),
      (''name'', Base (z_string_min 1)),
      (''password_hash'', Base (z_string_min 1))]"

definition updateUserInputSchema :: zobject where
  "updateUserInputSchema =
     [(''id'', Base z_string),
      (''email'', Optional (Base z_string_email)),
      (''name'', Optional (Base (z_string_min 1))),
      (''password_hash'', Optional (Base (z_string_min 1)))]"

definition searchUserInputSchema :: zobject where
  "searchUserInputSchema =
     [(''query'', Optional (Base z_string)),
      (''limit'', Default (Base z_number_int_positive) (VNum 10)),
      (''offset'', Default (Base z_number_int_nonnegative) (VNum 0)),
      (''sort_by'', Default (Base (z_enum [''name'', ''created_at''])) (VStr ''created_at'')),
      (''sort_order'', Default (Base (z_enum [''asc'', ''desc''])) (VStr ''desc''))]"

definition updateUserDashboardInputSchema :: zobject where
  "updateUserDashboardInputSchema =
     [(''user_id'', Base z_string),
      (''carbon_footprint'', Optional (Base z_number)),
      (''historical_data'', Optional (Nullable (Base z_string))),
      (''daily_tips'', Optional (Nullable (Base z_string))),
      (''challenges'', Optional (Nullable (Base z_string)))]"

definition updateImpactCalculatorInputSchema :: zobject where
  "updateImpactCalculatorInputSchema =
     [(''id'', Base z_string),
      (''user_id'', Optional (Base z_string)),
      (''travel_habits'', Optional (Nullable (Base z_string))),
      (''energy_consumption'', Optional (Nullable (Base z_string))),
      (''waste_management'', Optional (Nullable (Base z_string)))]"

definition createEcoCommunityForumInputSchema :: zobject where
  "createEcoCommunityForumInputSchema =
     [(''user_id'', Base z_string),
      (''thread_title'', Base (z_string_min 1)),
      (''content'', Base (z_string_min 1)),
      (''created_at'', Base z_coerce_date)]"

definition updateEcoCommunityForumInputSchema :: zobject where
  "updateEcoCommunityForumInputSchema =
     [(''id'', Base z_string),
      (''user_id'', Optional (Base z_string)),
      (''thread_title'', Optional (Base (z_string_min 1))),
      (''content'', Optional (Base (z_string_min 1))),
      (''created_at'', Optional (Base z_coerce_date))]"

definition createEventInputSchema :: zobject where
  "createEventInputSchema =
     [(''event_name'', Base z_string),
      (''event_date'', Base z_coerce_date),
      (''location'', Nullable (Base z_string)),
      (''organizer_id'', Base z_string)]"

definition updateEventInputSchema :: zobject where
  "updateEventInputSchema =
     [(''id'', Base z_string),
      (''event_name'', Optional (Base z_string)),
      (''event_date'', Optional (Base z_coerce_date)),
      (''location'', Optional (Nullable (Base z_string))),
      (''organizer_id'', Optional (Base z_string))]"

definition createResourceLibraryInputSchema :: zobject where
  "createResourceLibraryInputSchema =
     [(''content_type'', Base z_string),
      (''title'', Base z_string),
      (''description'', Nullable (Base z_string)),
      (''content_url'', Nullable (Base z_string)),
      (''author_id'', Base z_string)]"

definition updateResourceLibraryInputSchema :: zobject where
  "updateResourceLibraryInputSchema =
     [(''id'', Base z_string),
      (''content_type'', Optional (Base z_string)),
      (''title'', Optional (Base z_string)),
      (''description'', Optional (Nullable (Base z_string))),
      (''content_url'', Optional (Nullable (Base z_string))),
      (''author_id'', Optional (Base z_string))]"

definition createAlertInputSchema :: zobject where
  "createAlertInputSchema =
     [(''user_id'', Base z_string),
      (''alert_type'', Base z_string),
      (''message'', Base z_string),
      (''created_at'', Base z_coerce_date)]"

definition updateAlertInputSchema :: zobject where
  "updateAlertInputSchema =
     [(''id'', Base z_string),
      (''user_id'', Optional (Base z_string)),
      (''alert_type'', Optional (Base z_string)),
      (''message'', Optional (Base z_string)),
      (''created_at'', Optional (Base z_coerce_date))]"

definition updateAuthenticationInputSchema :: zobject where
  "updateAuthenticationInputSchema =
     [(''auth_token'', Base z_string),
      (''user_id'', Optional (Base z_string)),
      (''is_authenticated'', Optional (Base z_boolean)),
      (''is_loading'', Optional (Base z_boolean)),
      (''error_message'', Optional (Nullable (Base z_string)))]"

section \<open>The application (server.ts)\<close>

subsection \<open>Authentication guard\<close>

text \<open>\<^verbatim>\<open>authHeader && authHeader.split(' ')[1]\<close>: \<open>None\<close> when the header is absent or
  empty, or has no second piece.\<close>

definition bearer_token :: "string option \<Rightarrow> string option" where
  "bearer_token h =
     (case h of
        None \<Rightarrow> None
      | Some a \<Rightarrow>
          (if a = [] then None
           else (case split_str CHR '' '' a of _ # t # _ \<Rightarrow> Some t | _ \<Rightarrow> None)))"

definition public_columns :: "string list" where
  "public_columns = [''id'', ''email'', ''name'', ''created_at'']"

text \<open>\<open>Inl\<close> is the response that ends the request, \<open>Inr\<close> the row put into
  \<^verbatim>\<open>req.user\<close> before \<^verbatim>\<open>next()\<close>. Whatever is thrown after the token was found, by
  \<^verbatim>\<open>jwt.verify\<close>, by reading \<^verbatim>\<open>decoded.user_id\<close> of \<^verbatim>\<open>null\<close> or by the query, ends in
  the one \<^verbatim>\<open>catch\<close> of the guard.\<close>

definition authenticateToken :: "env \<Rightarrow> io \<Rightarrow> db \<Rightarrow> request \<Rightarrow> response + row" where
  "authenticateToken e i d req =
     (case bearer_token (authorization req) of
        None \<Rightarrow> Inl (reply 401 (createErrorResponse e i ''Access token required'' None ''AUTH_TOKEN_MISSING''))
      | Some token \<Rightarrow>
          (if token = [] then
             Inl (reply 401 (createErrorResponse e i ''Access token required'' None ''AUTH_TOKEN_MISSING''))
           else
             (case jwt_verify e (now i) token of
                None \<Rightarrow>
                  Inl (reply 403 (createErrorResponse e i ''Invalid or expired token''
                         (Some JsonWebTokenError) ''AUTH_TOKEN_INVALID''))
              | Some decoded \<Rightarrow>
                  (if decoded = JNull then
                     Inl (reply 403 (createErrorResponse e i ''Invalid or expired token''
                            (Some TypeError) ''AUTH_TOKEN_INVALID''))
                   else
                     (case sql_select d users ''id'' (pg_param e (field ''user_id'' decoded)) of
                        Inl err \<Rightarrow>
                          Inl (reply 403 (createErrorResponse e i ''Invalid or expired token''
                                 (Some err) ''AUTH_TOKEN_INVALID''))
                      | Inr rows \<Rightarrow>
                          (case map (project public_columns) rows of
                             [] \<Rightarrow>
                               Inl (reply 401 (createErrorResponse e i ''User not found'' None
                                      ''AUTH_USER_NOT_FOUND''))
                           | u # _ \<Rightarrow> Inr u))))))"

subsection \<open>Pieces the handlers share\<close>

definition validation_error :: "env \<Rightarrow> io \<Rightarrow> failure \<Rightarrow> response" where
  "validation_error e i err = reply 400 (createErrorResponse e i ''Invalid input data'' (Some err) ''VALIDATION_ERROR'')"

definition internal_error :: "env \<Rightarrow> io \<Rightarrow> failure \<Rightarrow> response" where
  "internal_error e i err =
     reply 500 (createErrorResponse e i ''Internal server error'' (Some err) ''INTERNAL_SERVER_ERROR'')"

definition no_update_fields :: "env \<Rightarrow> io \<Rightarrow> response" where
  "no_update_fields e i = reply 400 (createErrorResponse e i ''No valid fields to update'' None ''NO_UPDATE_FIELDS'')"

definition not_found :: "env \<Rightarrow> io \<Rightarrow> string \<Rightarrow> string \<Rightarrow> response" where
  "not_found e i message code = reply 404 (createErrorResponse e i message None code)"

text \<open>String methods and \<^verbatim>\<open>toISOString\<close> on a validated value. The schemas only let
  strings, respectively dates, arrive where the handlers call them.\<close>

fun on_str :: "(string \<Rightarrow> string) \<Rightarrow> zval \<Rightarrow> sqlval" where
  "on_str f (VStr s) = SText (f s)"
| "on_str f _ = SNull"

fun iso :: "env \<Rightarrow> zval \<Rightarrow> sqlval" where
  "iso e (VDate t) = SText (toISOString e t)"
| "iso e _ = SNull"

text \<open>\<^verbatim>\<open>if (validatedData.k) { updateFields.push(`k = $n`); updateValues.push(f(validatedData.k)) }\<close>
  and the same with the test \<^verbatim>\<open>validatedData.k !== undefined\<close>.\<close>

definition when_truthy :: "(string \<times> zval) list \<Rightarrow> string \<Rightarrow> (zval \<Rightarrow> sqlval) \<Rightarrow> (string \<times> sqlval) list" where
  "when_truthy v k f = (case vget v k of Some x \<Rightarrow> if truthy_val x then [(k, f x)] else [] | None \<Rightarrow> [])"

definition when_defined :: "(string \<times> zval) list \<Rightarrow> string \<Rightarrow> (zval \<Rightarrow> sqlval) \<Rightarrow> (string \<times> sqlval) list" where
  "when_defined v k f = (case vget v k of Some x \<Rightarrow> [(k, f x)] | None \<Rightarrow> [])"

text \<open>A validated field as a query parameter (\<^verbatim>\<open>undefined\<close> is sent as \<^verbatim>\<open>NULL\<close>).\<close>

definition param :: "(string \<times> zval) list \<Rightarrow> string \<Rightarrow> sqlval" where
  "param v k = (case vget v k of Some x \<Rightarrow> sql_of x | None \<Rightarrow> SNull)"

definition str :: "(string \<times> zval) list \<Rightarrow> string \<Rightarrow> string" where
  "str v k = (case vget v k of Some (VStr s) \<Rightarrow> s | _ \<Rightarrow> [])"

text \<open>The tail every update handler has after building \<^verbatim>\<open>updateFields\<close>: the
  \<^verbatim>\<open>UPDATE ... RETURNING\<close> statement, 404 when it returned no row, else 200 with the
  first row, shaped by \<open>shape\<close>.\<close>

definition run_update ::
  "env \<Rightarrow> io \<Rightarrow> db \<Rightarrow> table \<Rightarrow> (string \<times> sqlval) list \<Rightarrow> string \<Rightarrow> string \<Rightarrow> (row \<Rightarrow> json)
     \<Rightarrow> string \<Rightarrow> string \<Rightarrow> db \<times> response" where
  "run_update e i d t sets kc kv shape message code =
     (if sets = [] then (d, no_update_fields e i)
      else
        (case sql_update e d t sets kc (SText kv) of
           Inl err \<Rightarrow> (d, internal_error e i err)
         | Inr (d', rows) \<Rightarrow>
             (case rows of
                [] \<Rightarrow> (d', not_found e i message code)
              | r # _ \<Rightarrow> (d', reply 200 (shape r)))))"

text \<open>\<^verbatim>\<open>ORDER BY c ASC\<close> and \<^verbatim>\<open>DESC\<close> on a text column, rows that compare equal staying
  in storage order.\<close>

fun text_le :: "env \<Rightarrow> sqlval \<Rightarrow> sqlval \<Rightarrow> bool" where
  "text_le e (SText a) (SText b) = collate_le e a b"
| "text_le e _ _ = True"

fun insert_by :: "(row \<Rightarrow> row \<Rightarrow> bool) \<Rightarrow> row \<Rightarrow> row list \<Rightarrow> row list" where
  "insert_by le x [] = [x]"
| "insert_by le x (y # ys) = (if le x y then x # y # ys else y # insert_by le x ys)"

definition order_by :: "env \<Rightarrow> string \<Rightarrow> bool \<Rightarrow> row list \<Rightarrow> row list" where
  "order_by e c desc rs =
     foldr (insert_by (\<lambda>a b. if desc then text_le e (col c b) (col c a) else text_le e (col c a) (col c b))) rs []"

text \<open>\<^verbatim>\<open>LIKE\<close>: \<^verbatim>\<open>%\<close> stands for any text, \<^verbatim>\<open>_\<close> for one character, a backslash takes
  the next character literally. \<^verbatim>\<open>ILIKE\<close> compares without regard to case.\<close>

fun like :: "string \<Rightarrow> string \<Rightarrow> bool" where
  "like [] [] = True"
| "like [] (c # cs) = False"
| "like (p # ps) [] = (p = CHR ''%'' \<and> like ps [])"
| "like (p # ps) (c # cs) =
     (if p = CHR ''%'' then like ps (c # cs) \<or> like (p # ps) cs
      else if p = CHR ''_'' then like ps cs
      else if p = CHR 0x5C then (case ps of [] \<Rightarrow> False | q # qs \<Rightarrow> q = c \<and> like qs cs)
      else p = c \<and> like ps cs)"

fun ilike :: "sqlval \<Rightarrow> string \<Rightarrow> bool" where
  "ilike (SText t) p = like (toLowerCase p) (toLowerCase t)"
| "ilike _ p = False"

subsection \<open>Handlers\<close>

text \<open>Each handler is the body of the \<^verbatim>\<open>async (req, res)\<close> function of its route.
  Handlers of protected routes take the row \<^verbatim>\<open>req.user\<close> the guard found.\<close>

definition register :: "env \<Rightarrow> io \<Rightarrow> db \<Rightarrow> request \<Rightarrow> db \<times> response" where
  "register e i d req =
     (case parse e createUserInputSchema (body req) of
        Inl err \<Rightarrow> (d, validation_error e i err)
      | Inr v \<Rightarrow>
          (case sql_select d users ''email'' (param v ''email'') of
             Inl err \<Rightarrow> (d, internal_error e i err)
           | Inr existingUser \<Rightarrow>
               (if existingUser \<noteq> [] then
                  (d, reply 400 (createErrorResponse e i ''User with this email already exists'' None
                         ''USER_ALREADY_EXISTS''))
                else
                  (let user = [(''id'', SText (uuid i)),
                               (''email'', SText (trim (toLowerCase (str v ''email'')))),
                               (''name'', SText (trim (str v ''name''))),
                               (''created_at'', SText (toISOString e (now i))),
                               (''password_hash'', param v ''password_hash'')]
                   in case sql_insert e d users user of
                        Inl err \<Rightarrow> (d, internal_error e i err)
                      | Inr d1 \<Rightarrow>
                          (let token = jwt_sign e (now i)
                                 (JObj [(''user_id'', js_of_sql (col ''id'' user)),
                                        (''email'', js_of_sql (col ''email'' user))])
                           in case sql_insert e d1 user_dashboards
                                     [(''user_id'', SText (uuid i)), (''carbon_footprint'', SNumeric 0),
                                      (''historical_data'', SNull), (''daily_tips'', SNull),
                                      (''challenges'', SNull)] of
                                Inl err \<Rightarrow> (d1, internal_error e i err)
                              | Inr d2 \<Rightarrow>
                                  (d2, reply 201
                                     (JObj (js_fields user @ [(''token'', JStr token)]))))))))"

definition login :: "env \<Rightarrow> io \<Rightarrow> db \<Rightarrow> request \<Rightarrow> db \<times> response" where
  "login e i d req =
     (if truthy_opt (field ''email'' (body req)) \<and> truthy_opt (field ''password_hash'' (body req)) then
        (case field ''email'' (body req) of
           Some (JStr email) \<Rightarrow>
             (if refused [SText (trim (toLowerCase email)),
                          pg_param e (field ''password_hash'' (body req))] then
                (d, internal_error e i PgError)
              else
                (case filter (\<lambda>r. col ''email'' r = SText (trim (toLowerCase email))
                                 \<and> col ''password_hash'' r = pg_param e (field ''password_hash'' (body req)))
                        (d users) of
                   [] \<Rightarrow> (d, reply 401 (createErrorResponse e i ''Invalid email or password'' None
                                  ''INVALID_CREDENTIALS''))
                 | user # _ \<Rightarrow>
                     (d, reply 200
                        (JObj [(''auth_token'',
                                JStr (jwt_sign e (now i)
                                  (JObj [(''user_id'', js_of_sql (col ''id'' user)),
                                         (''email'', js_of_sql (col ''email'' user))]))),
                               (''user_id'', js_of_sql (col ''id'' user))]))))
         | _ \<Rightarrow> (d, internal_error e i TypeError))
      else
        (d, reply 400 (createErrorResponse e i ''Email and password are required'' None
               ''MISSING_CREDENTIALS'')))"

definition getUser :: "env \<Rightarrow> io \<Rightarrow> db \<Rightarrow> string \<Rightarrow> db \<times> response" where
  "getUser e i d user_id =
     (case sql_select d users ''id'' (SText user_id) of
        Inl err \<Rightarrow> (d, internal_error e i err)
      | Inr rows \<Rightarrow>
          (case map (project public_columns) rows of
             [] \<Rightarrow> (d, not_found e i ''User not found'' ''USER_NOT_FOUND'')
           | user # _ \<Rightarrow> (d, reply 200 (js_row user))))"

definition updateUser_fields :: "(string \<times> zval) list \<Rightarrow> (string \<times> sqlval) list" where
  "updateUser_fields v =
     when_truthy v ''email'' (on_str (\<lambda>s. trim (toLowerCase s)))
     @ when_truthy v ''name'' (on_str trim)
     @ when_truthy v ''password_hash'' sql_of"

definition updateUser :: "env \<Rightarrow> io \<Rightarrow> db \<Rightarrow> request \<Rightarrow> string \<Rightarrow> row \<Rightarrow> db \<times> response" where
  "updateUser e i d req user_id user =
     (case parse e updateUserInputSchema (body req) of
        Inl err \<Rightarrow> (d, validation_error e i err)
      | Inr v \<Rightarrow>
          (if col ''id'' user \<noteq> SText user_id then
             (d, reply 403 (createErrorResponse e i
                    ''Forbidden: Cannot update another user's profile'' None ''FORBIDDEN''))
           else
             run_update e i d users (updateUser_fields v) ''id'' user_id
               (\<lambda>r. js_row (project public_columns r)) ''User not found'' ''USER_NOT_FOUND''))"

definition searchUsers :: "env \<Rightarrow> io \<Rightarrow> db \<Rightarrow> request \<Rightarrow> db \<times> response" where
  "searchUsers e i d req =
     (case parse e searchUserInputSchema (query req) of
        Inl err \<Rightarrow>
          (d, reply 400 (createErrorResponse e i ''Invalid query parameters'' (Some err) ''VALIDATION_ERROR''))
      | Inr v \<Rightarrow>
          (if str v ''query'' \<noteq> [] \<and> refused [SText (''%'' @ str v ''query'' @ ''%'')] then
             (d, internal_error e i PgError)
           else
             (let found =
                    (if str v ''query'' \<noteq> [] then
                       filter (\<lambda>r. ilike (col ''name'' r) (''%'' @ str v ''query'' @ ''%'')
                                 \<or> ilike (col ''email'' r) (''%'' @ str v ''query'' @ ''%'')) (d users)
                     else d users);
                  sorted = order_by e (str v ''sort_by'') (str v ''sort_order'' = ''desc'') found;
                  limit = (case vget v ''limit'' of Some (VNum x) \<Rightarrow> nat \<lfloor>x\<rfloor> | _ \<Rightarrow> 0);
                  offset = (case vget v ''offset'' of Some (VNum x) \<Rightarrow> nat \<lfloor>x\<rfloor> | _ \<Rightarrow> 0)
              in (d, reply 200 (JArr (map (\<lambda>r. js_row (project public_columns r))
                                       (take limit (drop offset sorted))))))))"

definition dashboard_json :: "row \<Rightarrow> json" where
  "dashboard_json r =
     JObj [(''user_id'', js_of_sql (col ''user_id'' r)),
           (''carbon_footprint'', parseFloat (col ''carbon_footprint'' r)),
           (''historical_data'', js_of_sql (col ''historical_data'' r)),
           (''daily_tips'', js_of_sql (col ''daily_tips'' r)),
           (''challenges'', js_of_sql (col ''challenges'' r))]"

definition getDashboard :: "env \<Rightarrow> io \<Rightarrow> db \<Rightarrow> string \<Rightarrow> db \<times> response" where
  "getDashboard e i d user_id =
     (case sql_select d user_dashboards ''user_id'' (SText user_id) of
        Inl err \<Rightarrow> (d, internal_error e i err)
      | Inr [] \<Rightarrow> (d, not_found e i ''Dashboard not found'' ''DASHBOARD_NOT_FOUND'')
      | Inr (r # _) \<Rightarrow> (d, reply 200 (dashboard_json r)))"

definition updateDashboard_fields :: "(string \<times> zval) list \<Rightarrow> (string \<times> sqlval) list" where
  "updateDashboard_fields v =
     when_defined v ''carbon_footprint'' sql_of
     @ when_defined v ''historical_data'' sql_of
     @ when_defined v ''daily_tips'' sql_of
     @ when_defined v ''challenges'' sql_of"

definition updateDashboard :: "env \<Rightarrow> io \<Rightarrow> db \<Rightarrow> request \<Rightarrow> string \<Rightarrow> db \<times> response" where
  "updateDashboard e i d req user_id =
     (case parse e updateUserDashboardInputSchema (body req) of
        Inl err \<Rightarrow> (d, validation_error e i err)
      | Inr v \<Rightarrow>
          run_update e i d user_dashboards (updateDashboard_fields v) ''user_id'' user_id
            dashboard_json ''Dashboard not found'' ''DASHBOARD_NOT_FOUND'')"

definition getImpactCalculator :: "env \<Rightarrow> io \<Rightarrow> db \<Rightarrow> string \<Rightarrow> db \<times> response" where
  "getImpactCalculator e i d user_id =
     (case sql_select d impact_calculators ''user_id'' (SText user_id) of
        Inl err \<Rightarrow> (d, internal_error e i err)
      | Inr [] \<Rightarrow>
          (case sql_insert e d impact_calculators
                  [(''id'', SText (uuid i)), (''user_id'', SText user_id), (''travel_habits'', SNull),
                   (''energy_consumption'', SNull), (''waste_management'', SNull)] of
             Inl err \<Rightarrow> (d, internal_error e i err)
           | Inr d' \<Rightarrow>
               (d', reply 200
                  (JObj [(''id'', JStr (uuid i)), (''user_id'', JStr user_id), (''travel_habits'', JNull),
                         (''energy_consumption'', JNull), (''waste_management'', JNull)])))
      | Inr (calculator # _) \<Rightarrow> (d, reply 200 (js_row calculator)))"

definition updateImpactCalculator_fields :: "(string \<times> zval) list \<Rightarrow> (string \<times> sqlval) list" where
  "updateImpactCalculator_fields v =
     when_defined v ''travel_habits'' sql_of
     @ when_defined v ''energy_consumption'' sql_of
     @ when_defined v ''waste_management'' sql_of"

definition updateImpactCalculator :: "env \<Rightarrow> io \<Rightarrow> db \<Rightarrow> request \<Rightarrow> string \<Rightarrow> db \<times> response" where
  "updateImpactCalculator e i d req user_id =
     (case parse e updateImpactCalculatorInputSchema (body req) of
        Inl err \<Rightarrow> (d, validation_error e i err)
      | Inr v \<Rightarrow>
          run_update e i d impact_calculators (updateImpactCalculator_fields v) ''user_id'' user_id
            js_row ''Impact calculator not found'' ''CALCULATOR_NOT_FOUND'')"

definition listThreads :: "env \<Rightarrow> io \<Rightarrow> db \<Rightarrow> db \<times> response" where
  "listThreads e i d = (d, reply 200 (JArr (map js_row (order_by e ''created_at'' True (d eco_community_forum)))))"

text \<open>\<^verbatim>\<open>created_at ? created_at.toISOString() : new Date().toISOString()\<close>\<close>

definition timestamp_of :: "env \<Rightarrow> io \<Rightarrow> (string \<times> zval) list \<Rightarrow> sqlval" where
  "timestamp_of e i v =
     (case vget v ''created_at'' of
        Some x \<Rightarrow> if truthy_val x then iso e x else SText (toISOString e (now i))
      | None \<Rightarrow> SText (toISOString e (now i)))"

definition createThread :: "env \<Rightarrow> io \<Rightarrow> db \<Rightarrow> request \<Rightarrow> db \<times> response" where
  "createThread e i d req =
     (case parse e createEcoCommunityForumInputSchema (body req) of
        Inl err \<Rightarrow> (d, validation_error e i err)
      | Inr v \<Rightarrow>
          (let thread = [(''id'', SText (uuid i)), (''user_id'', param v ''user_id''),
                         (''thread_title'', param v ''thread_title''), (''content'', param v ''content''),
                         (''created_at'', timestamp_of e i v)]
           in case sql_insert e d eco_community_forum thread of
                Inl err \<Rightarrow> (d, internal_error e i err)
              | Inr d' \<Rightarrow> (d', reply 201 (js_row thread))))"

definition updateThread_fields :: "(string \<times> zval) list \<Rightarrow> (string \<times> sqlval) list" where
  "updateThread_fields v =
     when_truthy v ''thread_title'' sql_of
     @ when_truthy v ''content'' sql_of"

definition updateThread :: "env \<Rightarrow> io \<Rightarrow> db \<Rightarrow> request \<Rightarrow> string \<Rightarrow> db \<times> response" where
  "updateThread e i d req rid =
     (case parse e updateEcoCommunityForumInputSchema (body req) of
        Inl err \<Rightarrow> (d, validation_error e i err)
      | Inr v \<Rightarrow>
          run_update e i d eco_community_forum (updateThread_fields v) ''id'' rid
            js_row ''Forum thread not found'' ''THREAD_NOT_FOUND'')"

definition listEvents :: "env \<Rightarrow> io \<Rightarrow> db \<Rightarrow> db \<times> response" where
  "listEvents e i d = (d, reply 200 (JArr (map js_row (order_by e ''event_date'' False (d events)))))"

definition createEvent :: "env \<Rightarrow> io \<Rightarrow> db \<Rightarrow> request \<Rightarrow> db \<times> response" where
  "createEvent e i d req =
     (case parse e createEventInputSchema (body req) of
        Inl err \<Rightarrow> (d, validation_error e i err)
      | Inr v \<Rightarrow>
          (let event = [(''id'', SText (uuid i)), (''event_name'', param v ''event_name''),
                        (''event_date'', (case vget v ''event_date'' of Some x \<Rightarrow> iso e x | None \<Rightarrow> SNull)),
                        (''location'', param v ''location''), (''organizer_id'', param v ''organizer_id'')]
           in case sql_insert e d events event of
                Inl err \<Rightarrow> (d, internal_error e i err)
              | Inr d' \<Rightarrow> (d', reply 201 (js_row event))))"

definition updateEvent_fields :: "env \<Rightarrow> (string \<times> zval) list \<Rightarrow> (string \<times> sqlval) list" where
  "updateEvent_fields e v =
     when_truthy v ''event_name'' sql_of
     @ when_truthy v ''event_date'' (iso e)
     @ when_defined v ''location'' sql_of
     @ when_truthy v ''organizer_id'' sql_of"

definition updateEvent :: "env \<Rightarrow> io \<Rightarrow> db \<Rightarrow> request \<Rightarrow> string \<Rightarrow> db \<times> response" where
  "updateEvent e i d req rid =
     (case parse e updateEventInputSchema (body req) of
        Inl err \<Rightarrow> (d, validation_error e i err)
      | Inr v \<Rightarrow>
          run_update e i d events (updateEvent_fields e v) ''id'' rid
            js_row ''Event not found'' ''EVENT_NOT_FOUND'')"

definition listResources :: "env \<Rightarrow> io \<Rightarrow> db \<Rightarrow> db \<times> response" where
  "listResources e i d = (d, reply 200 (JArr (map js_row (order_by e ''title'' False (d resource_library)))))"

definition createResource :: "env \<Rightarrow> io \<Rightarrow> db \<Rightarrow> request \<Rightarrow> db \<times> response" where
  "createResource e i d req =
     (case parse e createResourceLibraryInputSchema (body req) of
        Inl err \<Rightarrow> (d, validation_error e i err)
      | Inr v \<Rightarrow>
          (let resource = [(''id'', SText (uuid i)), (''content_type'', param v ''content_type''),
                           (''title'', param v ''title''), (''description'', param v ''description''),
                           (''content_url'', param v ''content_url''), (''author_id'', param v ''author_id'')]
           in case sql_insert e d resource_library resource of
                Inl err \<Rightarrow> (d, internal_error e i err)
              | Inr d' \<Rightarrow> (d', reply 201 (js_row resource))))"

definition updateResource_fields :: "(string \<times> zval) list \<Rightarrow> (string \<times> sqlval) list" where
  "updateResource_fields v =
     when_truthy v ''content_type'' sql_of
     @ when_truthy v ''title'' sql_of
     @ when_defined v ''description'' sql_of
     @ when_defined v ''content_url'' sql_of
     @ when_truthy v ''author_id'' sql_of"

definition updateResource :: "env \<Rightarrow> io \<Rightarrow> db \<Rightarrow> request \<Rightarrow> string \<Rightarrow> db \<times> response" where
  "updateResource e i d req rid =
     (case parse e updateResourceLibraryInputSchema (body req) of
        Inl err \<Rightarrow> (d, validation_error e i err)
      | Inr v \<Rightarrow>
          run_update e i d resource_library (updateResource_fields v) ''id'' rid
            js_row ''Resource not found'' ''RESOURCE_NOT_FOUND'')"

definition listAlerts :: "env \<Rightarrow> io \<Rightarrow> db \<Rightarrow> string \<Rightarrow> db \<times> response" where
  "listAlerts e i d user_id =
     (case sql_select d alerts ''user_id'' (SText user_id) of
        Inl err \<Rightarrow> (d, internal_error e i err)
      | Inr rows \<Rightarrow> (d, reply 200 (JArr (map js_row (order_by e ''created_at'' True rows)))))"

definition createAlert :: "env \<Rightarrow> io \<Rightarrow> db \<Rightarrow> request \<Rightarrow> string \<Rightarrow> db \<times> response" where
  "createAlert e i d req user_id =
     (case parse e createAlertInputSchema (body req) of
        Inl err \<Rightarrow> (d, validation_error e i err)
      | Inr v \<Rightarrow>
          (let alert = [(''id'', SText (uuid i)), (''user_id'', SText user_id),
                        (''alert_type'', param v ''alert_type''), (''message'', param v ''message''),
                        (''created_at'', timestamp_of e i v)]
           in case sql_insert e d alerts alert of
                Inl err \<Rightarrow> (d, internal_error e i err)
              | Inr d' \<Rightarrow> (d', reply 201 (js_row alert))))"

definition updateAlert_fields :: "(string \<times> zval) list \<Rightarrow> (string \<times> sqlval) list" where
  "updateAlert_fields v =
     when_truthy v ''alert_type'' sql_of
     @ when_truthy v ''message'' sql_of"

definition updateAlert :: "env \<Rightarrow> io \<Rightarrow> db \<Rightarrow> request \<Rightarrow> string \<Rightarrow> db \<times> response" where
  "updateAlert e i d req rid =
     (case parse e updateAlertInputSchema (body req) of
        Inl err \<Rightarrow> (d, validation_error e i err)
      | Inr v \<Rightarrow>
          run_update e i d alerts (updateAlert_fields v) ''id'' rid
            js_row ''Alert not found'' ''ALERT_NOT_FOUND'')"

definition health :: "env \<Rightarrow> io \<Rightarrow> response" where
  "health e i = reply 200 (JObj [(''status'', JStr ''ok''), (''timestamp'', JStr (toISOString e (now i)))])"

subsection \<open>Routing\<close>

text \<open>
  Express tries the routes in the order of their registration and hands the request to the
  first one whose path and method match; none of the handlers passes the request on. A
  path such as \<^verbatim>\<open>/api/users/:user_id\<close> matches segment by segment, literal segments as
  they stand in the request and without regard to case, a parameter taking any non-empty
  segment, and one trailing slash is allowed. Where the path matches, every parameter is
  passed through \<^verbatim>\<open>decodeURIComponent\<close> before the method is looked at; a parameter
  that cannot be decoded ends the search, and Express answers 400 itself. The last route is
  the regular expression \<^verbatim>\<open>/^(?!\/api).*/\<close>.
\<close>

datatype seg = Lit string | Param string

datatype route_path = Segs "seg list" | NotApi

datatype handler =
    Register | Login | GetUser | UpdateUser | SearchUsers
  | GetDashboard | UpdateDashboard | GetImpactCalculator | UpdateImpactCalculator
  | ListThreads | CreateThread | UpdateThread
  | ListEvents | CreateEvent | UpdateEvent
  | ListResources | CreateResource | UpdateResource
  | ListAlerts | CreateAlert | UpdateAlert
  | Health | Spa

text \<open>Method, path, whether \<^verbatim>\<open>authenticateToken\<close> stands before the handler, handler.\<close>

definition routes :: "(http_method \<times> route_path \<times> bool \<times> handler) list" where
  "routes =
     [(POST, Segs [Lit ''api'', Lit ''auth'', Lit ''register''], False, Register),
      (POST, Segs [Lit ''api'', Lit ''auth'', Lit ''login''], False, Login),
      (GET, Segs [Lit ''api'', Lit ''users'', Param ''user_id''], True, GetUser),
      (PUT, Segs [Lit ''api'', Lit ''users'', Param ''user_id''], True, UpdateUser),
      (GET, Segs [Lit ''api'', Lit ''users'', Lit ''search''], True, SearchUsers),
      (GET, Segs [Lit ''api'', Lit ''dashboard'', Param ''user_id''], True, GetDashboard),
      (PATCH, Segs [Lit ''api'', Lit ''dashboard'', Param ''user_id''], True, UpdateDashboard),
      (GET, Segs [Lit ''api'', Lit ''impact-calculator'', Param ''user_id''], True, GetImpactCalculator),
      (PATCH, Segs [Lit ''api'', Lit ''impact-calculator'', Param ''user_id''], True, UpdateImpactCalculator),
      (GET, Segs [Lit ''api'', Lit ''community-forum''], True, ListThreads),
      (POST, Segs [Lit ''api'', Lit ''community-forum''], True, CreateThread),
      (PATCH, Segs [Lit ''api'', Lit ''community-forum'', Param ''id''], True, UpdateThread),
      (GET, Segs [Lit ''api'', Lit ''events''], True, ListEvents),
      (POST, Segs [Lit ''api'', Lit ''events''], True, CreateEvent),
      (PATCH, Segs [Lit ''api'', Lit ''events'', Param ''id''], True, UpdateEvent),
      (GET, Segs [Lit ''api'', Lit ''resource-library''], True, ListResources),
      (POST, Segs [Lit ''api'', Lit ''resource-library''], True, CreateResource),
      (PATCH, Segs [Lit ''api'', Lit ''resource-library'', Param ''id''], True, UpdateResource),
      (GET, Segs [Lit ''api'', Lit ''alerts'', Param ''user_id''], True, ListAlerts),
      (POST, Segs [Lit ''api'', Lit ''alerts'', Param ''user_id''], True, CreateAlert),
      (PATCH, Segs [Lit ''api'', Lit ''alerts'', Param ''id''], True, UpdateAlert),
      (GET, Segs [Lit ''api'', Lit ''health''], False, Health),
      (GET, NotApi, False, Spa)]"

text \<open>Matching a path against a route: \<open>None\<close> when it does not fit, else the parameters
  as they stand in the path. \<open>decode_params\<close> below is the decoding that Express applies
  to them before a handler, or the test of the method, sees them.\<close>

fun match_segs :: "seg list \<Rightarrow> string list \<Rightarrow> (string \<times> string) list option" where
  "match_segs [] [] = Some []"
| "match_segs [] (s # ss) = (if s = [] \<and> ss = [] then Some [] else None)"
| "match_segs (p # ps) [] = None"
| "match_segs (Lit l # ps) (s # ss) =
     (if toLowerCase s = toLowerCase l then match_segs ps ss else None)"
| "match_segs (Param n # ps) (s # ss) =
     (if s = [] then None else map_option ((#) (n, s)) (match_segs ps ss))"

fun match_path :: "route_path \<Rightarrow> string \<Rightarrow> (string \<times> string) list option" where
  "match_path (Segs ps) p =
     (case split_str CHR ''/'' p of
        s # ss \<Rightarrow> if s = [] then match_segs ps ss else None
      | [] \<Rightarrow> None)"
| "match_path NotApi p = (if take 4 p = ''/api'' then None else Some [])"

fun decode_params :: "(string \<times> string) list \<Rightarrow> (string \<times> string) list option" where
  "decode_params [] = Some []"
| "decode_params ((n, s) # ps) =
     (case decodeURIComponent s of
        None \<Rightarrow> None
      | Some s' \<Rightarrow> map_option ((#) (n, s')) (decode_params ps))"

fun dispatch ::
  "(http_method \<times> route_path \<times> bool \<times> handler) list \<Rightarrow> http_method \<Rightarrow> string
     \<Rightarrow> failure + (bool \<times> handler \<times> (string \<times> string) list) option" where
  "dispatch [] m p = Inr None"
| "dispatch ((m', rp, guarded, h) # rs) m p =
     (case match_path rp p of
        None \<Rightarrow> dispatch rs m p
      | Some raw \<Rightarrow>
          (case decode_params raw of
             None \<Rightarrow> Inl URIError
           | Some params \<Rightarrow> if m' = m then Inr (Some (guarded, h, params)) else dispatch rs m p))"

text \<open>\<^verbatim>\<open>req.params.k\<close>\<close>

definition arg :: "(string \<times> string) list \<Rightarrow> string \<Rightarrow> string" where
  "arg params k = (case map_of params k of Some s \<Rightarrow> s | None \<Rightarrow> [])"

fun run ::
  "handler \<Rightarrow> env \<Rightarrow> io \<Rightarrow> db \<Rightarrow> request \<Rightarrow> (string \<times> string) list \<Rightarrow> row \<Rightarrow> db \<times> response" where
  "run Register e i d req params user = register e i d req"
| "run Login e i d req params user = login e i d req"
| "run GetUser e i d req params user = getUser e i d (arg params ''user_id'')"
| "run UpdateUser e i d req params user = updateUser e i d req (arg params ''user_id'') user"
| "run SearchUsers e i d req params user = searchUsers e i d req"
| "run GetDashboard e i d req params user = getDashboard e i d (arg params ''user_id'')"
| "run UpdateDashboard e i d req params user = updateDashboard e i d req (arg params ''user_id'')"
| "run GetImpactCalculator e i d req params user = getImpactCalculator e i d (arg params ''user_id'')"
| "run UpdateImpactCalculator e i d req params user =
     updateImpactCalculator e i d req (arg params ''user_id'')"
| "run ListThreads e i d req params user = listThreads e i d"
| "run CreateThread e i d req params user = createThread e i d req"
| "run UpdateThread e i d req params user = updateThread e i d req (arg params ''id'')"
| "run ListEvents e i d req params user = listEvents e i d"
| "run CreateEvent e i d req params user = createEvent e i d req"
| "run UpdateEvent e i d req params user = updateEvent e i d req (arg params ''id'')"
| "run ListResources e i d req params user = listResources e i d"
| "run CreateResource e i d req params user = createResource e i d req"
| "run UpdateResource e i d req params user = updateResource e i d req (arg params ''id'')"
| "run ListAlerts e i d req params user = listAlerts e i d (arg params ''user_id'')"
| "run CreateAlert e i d req params user = createAlert e i d req (arg params ''user_id'')"
| "run UpdateAlert e i d req params user = updateAlert e i d req (arg params ''id'')"
| "run Health e i d req params user = (d, health e i)"
| "run Spa e i d req params user = (d, \<lparr>status = 200, content = File ''public/index.html''\<rparr>)"

text \<open>One request against the application. A request no route takes gets Express's own
  404, one with a route parameter that cannot be decoded Express's own 400; no handler
  runs and the store is not touched.\<close>

definition app :: "env \<Rightarrow> io \<Rightarrow> db \<Rightarrow> request \<Rightarrow> db \<times> response" where
  "app e i d req =
     (case dispatch routes (req_method req) (req_path req) of
        Inl err \<Rightarrow> (d, \<lparr>status = 400, content = BadParam\<rparr>)
      | Inr None \<Rightarrow> (d, \<lparr>status = 404, content = NoRoute\<rparr>)
      | Inr (Some (guarded, h, params)) \<Rightarrow>
          (if guarded then
             (case authenticateToken e i d req of
                Inl rejected \<Rightarrow> (d, rejected)
              | Inr user \<Rightarrow> run h e i d req params user)
           else run h e i d req params []))"

subsection \<open>The update endpoints\<close>



subsection \<open>The updates in terms of the request body\<close>








section \<open>Sample data\<close>

text \<open>Rows out of those the repository seeds its tables with (both users, dashboards and
  events, one row of each other table), and an environment in the manner of the
  repository's tests, which replace the JWT library by fixed answers.\<close>

fun seed :: db where
  "seed users =
     [[(''id'', SText ''user1''), (''email'', SText ''john.doe@example.com''),
      (''name'', SText ''John Doe''), (''created_at'', SText ''2023-10-01T10:00:00Z''),
      (''password_hash'', SText ''password123'')],
      [(''id'', SText ''user2''), (''email'', SText ''jane.smith@example.com''),
      (''name'', SText ''Jane Smith''), (''created_at'', SText ''2023-10-01T11:00:00Z''),
      (''password_hash'', SText ''admin123'')]]"
| "seed user_dashboards =
     [[(''user_id'', SText ''user1''), (''carbon_footprint'', SNumeric 42.5),
      (''historical_data'', SText ''data1''), (''daily_tips'', SText ''tip1''),
      (''challenges'', SText ''challenge1'')],
      [(''user_id'', SText ''user2''), (''carbon_footprint'', SNumeric 38.7),
      (''historical_data'', SText ''data2''), (''daily_tips'', SText ''tip2''),
      (''challenges'', SText ''challenge2'')]]"
| "seed impact_calculators =
     [[(''id'', SText ''calculator1''), (''user_id'', SText ''user1''),
      (''travel_habits'', SText ''car''), (''energy_consumption'', SText ''high''),
      (''waste_management'', SText ''recycle'')]]"
| "seed eco_community_forum =
     [[(''id'', SText ''thread1''), (''user_id'', SText ''user1''),
      (''thread_title'', SText ''Sustainability Tips''),
      (''content'', SText ''Content of the first post.''),
      (''created_at'', SText ''2023-10-02T12:00:00Z'')]]"
| "seed events =
     [[(''id'', SText ''event1''), (''event_name'', SText ''Earth Day Celebration''),
      (''event_date'', SText ''2023-04-22''), (''location'', SText ''Central Park''),
      (''organizer_id'', SText ''user1'')],
      [(''id'', SText ''event2''), (''event_name'', SText ''Recycling Workshop''),
      (''event_date'', SText ''2023-05-15''), (''location'', SText ''Community Center''),
      (''organizer_id'', SText ''user2'')]]"
| "seed resource_library =
     [[(''id'', SText ''resource1''), (''content_type'', SText ''Video''),
      (''title'', SText ''How to Recycle''),
      (''description'', SText ''A video tutorial on recycling.''),
      (''content_url'', SText ''https://picsum.photos/200/300?random=1''),
      (''author_id'', SText ''user1'')]]"
| "seed alerts =
     [[(''id'', SText ''alert2''), (''user_id'', SText ''user2''),
      (''alert_type'', SText ''Alert''), (''message'', SText ''New sustainability event near you!''),
      (''created_at'', SText ''2023-10-03T15:00:00Z'')]]"

definition test_env :: env where
  "test_env =
     \<lparr>is_email = (\<lambda>s. CHR ''@'' \<in> set s),
      new_Date = (\<lambda>j. case j of JStr s \<Rightarrow> if s = ''2023-10-10'' then Some 1696896000000 else None
                          | JNull \<Rightarrow> Some 0 | _ \<Rightarrow> None),
      toISOString = (\<lambda>t. if t = 1696896000000 then ''2023-10-10T00:00:00.000Z''
                          else if t = 0 then ''1970-01-01T00:00:00.000Z'' else ''2024-01-01T00:00:00.000Z''),
      jwt_sign = (\<lambda>t payload. ''fake-jwt-token''),
      jwt_verify = (\<lambda>t token. if token = ''token-user1'' then Some (JObj [(''user_id'', JStr ''user1'')])
                              else if token = ''token-user2'' then Some (JObj [(''user_id'', JStr ''user2'')])
                              else if token = ''token-gone'' then Some (JObj [(''user_id'', JStr ''user9'')])
                              else if token = ''token-nul'' then Some (JObj [(''user_id'', JStr [CHR 0x00])])
                              else None),
      development = False,
      error_details = (\<lambda>f. JNull),
      pg_text = (\<lambda>j. []),
      oversize = (\<lambda>s. 2000 < length s),
      collate_le = (\<lambda>a b. True)\<rparr>"

definition test_io :: io where
  "test_io = \<lparr>uuid = ''0b5c4f0e'', now = 1700000000000\<rparr>"

definition dashboard_request :: "string option \<Rightarrow> request" where
  "dashboard_request a =
     \<lparr>req_method = GET, req_path = ''/api/dashboard/user1'', query = JObj [], authorization = a,
      body = JObj []\<rparr>"

definition register_request :: "string \<Rightarrow> request" where
  "register_request em =
     \<lparr>req_method = POST, req_path = ''/api/auth/register'', query = JObj [], authorization = None,
      body = JObj [(''email'', JStr em), (''name'', JStr ''Duplicate User''),
                   (''password_hash'', JStr ''duplicatepassword'')]\<rparr>"

definition user_request :: "string option \<Rightarrow> request" where
  "user_request a =
     \<lparr>req_method = GET, req_path = ''/api/users/user2'', query = JObj [], authorization = a,
      body = JObj []\<rparr>"

definition calculator_request :: request where
  "calculator_request =
     \<lparr>req_method = GET, req_path = ''/api/impact-calculator/user2'', query = JObj [],
      authorization = Some ''Bearer token-user1'', body = JObj []\<rparr>"

definition patch_event_request :: "json \<Rightarrow> request" where
  "patch_event_request b =
     \<lparr>req_method = PATCH, req_path = ''/api/events/event1'', query = JObj [],
      authorization = Some ''Bearer token-user1'', body = b\<rparr>"

definition thread_request :: "json \<Rightarrow> request" where
  "thread_request b =
     \<lparr>req_method = POST, req_path = ''/api/community-forum'', query = JObj [],
      authorization = Some ''Bearer token-user1'', body = b\<rparr>"



section \<open>Facts about the model\<close>

lemma dispatch_other_method:
  "list_all (\<lambda>(m', rp, g, h). m' \<noteq> m) rs \<Longrightarrow>
   dispatch rs m p =
     (if list_ex (\<lambda>(m', rp, g, h). case match_path rp p of None \<Rightarrow> False
                                      | Some raw \<Rightarrow> decode_params raw = None) rs
      then Inl URIError else Inr None)"
  by (induction rs) (auto split: option.splits)

lemma dispatch_delete:
  "dispatch routes DELETE p =
     (if list_ex (\<lambda>(m', rp, g, h). case match_path rp p of None \<Rightarrow> False
                                      | Some raw \<Rightarrow> decode_params raw = None) routes
      then Inl URIError else Inr None)"
  by (rule dispatch_other_method) (simp add: routes_def)

lemma dispatch_delete_event1: "dispatch routes DELETE ''/api/events/event1'' = Inr None"
  by code_simp

lemma dispatch_get_event1: "dispatch routes GET ''/api/events/event1'' = Inr None"
  by code_simp

lemma dispatch_users_search:
  "dispatch routes GET ''/api/users/search'' = Inr (Some (True, GetUser, [(''user_id'', ''search'')]))"
  by code_simp

lemma bearer_token_user1: "bearer_token (Some ''Bearer token-user1'') = Some ''token-user1''"
  by (simp add: bearer_token_def)


lemma auth_user1:
  "authorization req = Some ''Bearer token-user1'' \<Longrightarrow>
   authenticateToken test_env i seed req =
     Inr [(''id'', SText ''user1''), (''email'', SText ''john.doe@example.com''),
          (''name'', SText ''John Doe''), (''created_at'', SText ''2023-10-01T10:00:00Z'')]"
  by (simp add: authenticateToken_def bearer_token_user1 test_env_def sql_select_def refused_def matching_def
      col_def project_def public_columns_def)

lemma getUser_not_array: "content (snd (getUser e i d uid)) \<noteq> Json (JArr js)"
  by (simp add: getUser_def not_found_def internal_error_def reply_def createErrorResponse_def
      js_row_def split: list.split sum.split)

lemma app_guarded:
  "dispatch routes (req_method req) (req_path req) = Inr (Some (True, h, params)) \<Longrightarrow>
   app e i d req =
     (case authenticateToken e i d req of
        Inl rejected \<Rightarrow> (d, rejected)
      | Inr user \<Rightarrow> run h e i d req params user)"
  by (simp add: app_def)

lemma dispatch_dashboard_user1:
  "dispatch routes GET ''/api/dashboard/user1'' = Inr (Some (True, GetDashboard, [(''user_id'', ''user1'')]))"
  by code_simp

lemma dispatch_dashboard_request:
  "dispatch routes (req_method (dashboard_request a)) (req_path (dashboard_request a))
     = Inr (Some (True, GetDashboard, [(''user_id'', ''user1'')]))"
  by (simp add: dashboard_request_def dispatch_dashboard_user1)

lemma bearer_forged: "bearer_token (Some ''Bearer forged'') = Some ''forged''"
  by (simp add: bearer_token_def)

lemma bearer_gone: "bearer_token (Some ''Bearer token-gone'') = Some ''token-gone''"
  by (simp add: bearer_token_def)

lemma auth_forged:
  "authenticateToken test_env test_io seed (dashboard_request (Some ''Bearer forged'')) =
     Inl (reply 403 (createErrorResponse test_env test_io ''Invalid or expired token''
                 (Some JsonWebTokenError) ''AUTH_TOKEN_INVALID''))"
  by (simp add: authenticateToken_def dashboard_request_def bearer_forged test_env_def)

lemma parse_createUser_ok:
  "is_email e em \<Longrightarrow> nm \<noteq> [] \<Longrightarrow> pw \<noteq> [] \<Longrightarrow>
   parse e createUserInputSchema (JObj [(''email'', JStr em), (''name'', JStr nm), (''password_hash'', JStr pw)])
     = Inr [(''email'', VStr em), (''name'', VStr nm), (''password_hash'', VStr pw)]"
  by (simp add: parse_def parse_fields_def createUserInputSchema_def parse_base_def Suc_le_eq)

lemma parse_createUser_Inr:
  assumes "parse e createUserInputSchema b = Inr v"
  shows "\<exists>em nm pw. field ''email'' b = Some (JStr em) \<and> field ''name'' b = Some (JStr nm)
           \<and> field ''password_hash'' b = Some (JStr pw)
           \<and> v = [(''email'', VStr em), (''name'', VStr nm), (''password_hash'', VStr pw)]"
  using assms
  by (auto simp add: parse_def parse_fields_def createUserInputSchema_def parse_base_def
      split: json.splits option.splits if_splits)

lemma matching_empty:
  "list_all (\<lambda>r. col c r \<noteq> v) (d t) \<Longrightarrow> matching d t c v = []"
  by (simp add: matching_def list_all_iff filter_empty_conv)

lemma count_list_pos: "list_ex (\<lambda>r. col c r = v) rs \<Longrightarrow> 0 < count_list (map (col c) rs) v"
  by (induction rs) auto

lemma dispatch_register:
  "dispatch routes POST ''/api/auth/register'' = Inr (Some (False, Register, []))"
  by code_simp

lemma lower_john: "trim (toLowerCase ''John.Doe@Example.com'') = ''john.doe@example.com''"
  by code_simp

lemma status_reply: "status (reply n v) = n" by (simp add: reply_def)

lemma content_reply: "content (reply n v) = Json v" by (simp add: reply_def)

lemma error_has_no_password_hash:
  "field ''password_hash'' (createErrorResponse e i m err c) = None"
  by (simp add: createErrorResponse_def split: option.split)

lemma public_row_has_no_password_hash:
  "field ''password_hash'' (js_row (project public_columns r)) = None"
  by (simp add: js_row_def js_fields_def project_def public_columns_def)

lemma authenticateToken_rejection:
  "authenticateToken e i d req = Inl r \<Longrightarrow> \<exists>n m err c. r = reply n (createErrorResponse e i m err c)"
  by (auto simp add: authenticateToken_def split: option.splits if_splits list.splits sum.splits)

lemma getUser_no_password_hash:
  "content (snd (getUser e i d uid)) = Json j \<Longrightarrow> field ''password_hash'' j = None"
  by (auto simp add: getUser_def not_found_def internal_error_def content_reply
      error_has_no_password_hash public_row_has_no_password_hash split: list.splits sum.splits)

lemma register_created:
  assumes "status (snd (register e i d req)) = 201"
  shows "\<exists>row tok pw.
           snd (register e i d req) = reply 201 (JObj (js_fields row @ [(''token'', JStr tok)]))
         \<and> row \<in> set (fst (register e i d req) users)
         \<and> field ''password_hash'' (body req) = Some (JStr pw)
         \<and> col ''password_hash'' row = SText pw
         \<and> field ''password_hash'' (JObj (js_fields row @ [(''token'', JStr tok)])) = Some (JStr pw)
         \<and> field ''token'' (JObj (js_fields row @ [(''token'', JStr tok)])) = Some (JStr tok)"
proof (cases "parse e createUserInputSchema (body req)")
  case (Inl err)
  with assms show ?thesis
    by (simp add: register_def validation_error_def status_reply)
next
  case (Inr v)
  then obtain em nm pw where f: "field ''password_hash'' (body req) = Some (JStr pw)"
    and v: "v = [(''email'', VStr em), (''name'', VStr nm), (''password_hash'', VStr pw)]"
    using parse_createUser_Inr by blast
  let ?row = "[(''id'', SText (uuid i)), (''email'', SText (trim (toLowerCase em))),
               (''name'', SText (trim nm)), (''created_at'', SText (toISOString e (now i))),
               (''password_hash'', SText pw)]"
  let ?tok = "jwt_sign e (now i)
                (JObj [(''user_id'', JStr (uuid i)), (''email'', JStr (trim (toLowerCase em)))])"
  show ?thesis
    apply (rule exI [of _ ?row], rule exI [of _ ?tok], rule exI [of _ pw])
    using assms Inr f
    by (auto simp add: register_def v Let_def param_def vget_def str_def status_reply
        internal_error_def sql_insert_def refused_def col_def js_fields_def
        split: if_splits sum.splits)
qed

lemma dispatch_users_user2:
  "dispatch routes GET ''/api/users/user2'' = Inr (Some (True, GetUser, [(''user_id'', ''user2'')]))"
  by code_simp

lemma lower_new_user: "trim (toLowerCase ''new_user@example.com'') = ''new_user@example.com''"
  by code_simp

lemma trim_duplicate_user: "trim ''Duplicate User'' = ''Duplicate User''"
  by code_simp

lemma parse_register_request:
  "parse test_env createUserInputSchema (body (register_request ''new_user@example.com''))
     = Inr [(''email'', VStr ''new_user@example.com''), (''name'', VStr ''Duplicate User''),
            (''password_hash'', VStr ''duplicatepassword'')]"
  by (simp add: register_request_def parse_createUser_ok test_env_def)

lemma register_new_user:
  "snd (register test_env test_io seed (register_request ''new_user@example.com'')) =
     reply 201 (JObj [(''id'', JStr ''0b5c4f0e''), (''email'', JStr ''new_user@example.com''),
        (''name'', JStr ''Duplicate User''), (''created_at'', JStr ''2024-01-01T00:00:00.000Z''),
        (''password_hash'', JStr ''duplicatepassword''), (''token'', JStr ''fake-jwt-token'')])"
  by (simp add: register_def parse_register_request param_def vget_def str_def lower_new_user
      trim_duplicate_user sql_select_def refused_def matching_def col_def sql_insert_def refused_def violates_def js_fields_def
      Let_def)
    (simp add: test_env_def test_io_def)

lemma get_user2:
  "app test_env test_io seed (user_request (Some ''Bearer token-user1'')) =
     (seed, reply 200 (JObj [(''id'', JStr ''user2''), (''email'', JStr ''jane.smith@example.com''),
        (''name'', JStr ''Jane Smith''), (''created_at'', JStr ''2023-10-01T11:00:00Z'')]))"
  by (simp add: app_def user_request_def dispatch_users_user2 auth_user1 arg_def getUser_def
      sql_select_def refused_def matching_def col_def project_def public_columns_def js_row_def js_fields_def)

lemma count_list_zero: "list_all (\<lambda>r. col c r \<noteq> v) rs \<Longrightarrow> count_list (map (col c) rs) v = 0"
  by (induction rs) auto

lemma list_ex_not_all: "list_ex (\<lambda>r. col c r = v) rs \<Longrightarrow> \<not> list_all (\<lambda>r. col c r \<noteq> v) rs"
  by (induction rs) auto

lemma matching_appended:
  "list_all (\<lambda>r. col c r \<noteq> SText v) (d t) \<Longrightarrow> col c r = SText v \<Longrightarrow>
   matching (d(t := d t @ [r])) t c (SText v) = [r]"
  by (simp add: matching_def list_all_iff filter_empty_conv)

lemma getImpactCalculator_first:
  assumes "list_ex (\<lambda>r. col ''id'' r = SText u) (d users)"
    and "list_all (\<lambda>r. col ''user_id'' r \<noteq> SText u) (d impact_calculators)"
    and "list_all (\<lambda>r. col ''id'' r \<noteq> SText (uuid i)) (d impact_calculators)"
    and "CHR 0x00 \<notin> set u" and "CHR 0x00 \<notin> set (uuid i)" and "\<not> oversize e (uuid i)"
  shows "getImpactCalculator e i d u =
     (d(impact_calculators := d impact_calculators @
          [[(''id'', SText (uuid i)), (''user_id'', SText u), (''travel_habits'', SNull),
            (''energy_consumption'', SNull), (''waste_management'', SNull)]]),
      reply 200 (js_row [(''id'', SText (uuid i)), (''user_id'', SText u), (''travel_habits'', SNull),
            (''energy_consumption'', SNull), (''waste_management'', SNull)]))"
  using matching_empty [where d = d and t = impact_calculators, OF assms(2)]
    count_list_zero [OF assms(3)] list_ex_not_all [OF assms(1)] assms(4,5,6)
  by (simp add: getImpactCalculator_def sql_select_def sql_insert_def refused_def violates_def col_def
      js_row_def js_fields_def)

lemma getImpactCalculator_again:
  assumes "list_all (\<lambda>r. col ''user_id'' r \<noteq> SText u) (d impact_calculators)"
    and "CHR 0x00 \<notin> set u"
  shows "getImpactCalculator e i' (d(impact_calculators := d impact_calculators @
          [[(''id'', SText k), (''user_id'', SText u), (''travel_habits'', SNull),
            (''energy_consumption'', SNull), (''waste_management'', SNull)]])) u =
     (d(impact_calculators := d impact_calculators @
          [[(''id'', SText k), (''user_id'', SText u), (''travel_habits'', SNull),
            (''energy_consumption'', SNull), (''waste_management'', SNull)]]),
      reply 200 (js_row [(''id'', SText k), (''user_id'', SText u), (''travel_habits'', SNull),
            (''energy_consumption'', SNull), (''waste_management'', SNull)]))"
  using matching_appended [where d = d and t = impact_calculators, OF assms(1),
      of "[(''id'', SText k), (''user_id'', SText u), (''travel_habits'', SNull),
            (''energy_consumption'', SNull), (''waste_management'', SNull)]"] assms(2)
  by (simp add: getImpactCalculator_def sql_select_def refused_def col_def)

lemma dispatch_calculator_user2:
  "dispatch routes GET ''/api/impact-calculator/user2''
     = Inr (Some (True, GetImpactCalculator, [(''user_id'', ''user2'')]))"
  by code_simp

lemma auth_user1_any:
  "authorization req = Some ''Bearer token-user1'' \<Longrightarrow> d users = seed users \<Longrightarrow>
   authenticateToken test_env i d req =
     Inr [(''id'', SText ''user1''), (''email'', SText ''john.doe@example.com''),
          (''name'', SText ''John Doe''), (''created_at'', SText ''2023-10-01T10:00:00Z'')]"
  by (simp add: authenticateToken_def bearer_token_user1 test_env_def sql_select_def refused_def matching_def
      col_def project_def public_columns_def)

lemma parse_key_missing:
  "map_of kvs k = None \<Longrightarrow>
   parse e ((k, Base z_string) # rest) (JObj kvs) = Inl (ZodError (k # issues (parse_fields e rest kvs)))"
  by (simp add: parse_def parse_fields_def parse_base_def)

lemma dispatch_patch_event1:
  "dispatch routes PATCH ''/api/events/event1'' = Inr (Some (True, UpdateEvent, [(''id'', ''event1'')]))"
  by code_simp

lemma app_patch_event:
  "app test_env test_io seed (patch_event_request b) =
     updateEvent test_env test_io seed (patch_event_request b) ''event1''"
  by (simp add: app_def patch_event_request_def dispatch_patch_event1 auth_user1 arg_def)

lemma parse_location_only:
  "parse e updateEventInputSchema (JObj [(''location'', JStr ''Updated Location'')])
     = Inl (ZodError [''id''])"
  by (simp add: parse_def parse_fields_def parse_base_def updateEventInputSchema_def)

lemma body_patch_event_request: "body (patch_event_request b) = b"
  by (simp add: patch_event_request_def)

lemma parse_created_at_missing:
  "field ''created_at'' b = None \<Longrightarrow> (''created_at'', Base z_coerce_date) \<in> set S \<Longrightarrow>
   \<exists>fs. parse e S b = Inl (ZodError fs)"
proof (cases b)
  case (JObj kvs)
  assume f: "field ''created_at'' b = None" and m: "(''created_at'', Base z_coerce_date) \<in> set S"
  from f JObj have k: "map_of kvs ''created_at'' = None" by simp
  have "\<And>rest. (''created_at'', Base z_coerce_date) \<in> set rest \<Longrightarrow> issues (parse_fields e rest kvs) \<noteq> []"
  proof -
    fix rest show "(''created_at'', Base z_coerce_date) \<in> set rest \<Longrightarrow> issues (parse_fields e rest kvs) \<noteq> []"
    proof (induction rest)
      case Nil then show ?case by simp
    next
      case (Cons a rest)
      obtain k' s where a: "a = (k', s)" by (cases a)
      show ?case
      proof (cases "a = (''created_at'', Base z_coerce_date)")
        case True
        then show ?thesis using k by (simp add: parse_fields_def parse_base_def)
      next
        case False
        with Cons have "issues (parse_fields e rest kvs) \<noteq> []" by simp
        then show ?thesis
          by (cases "parse_schema e s (map_of kvs k')") (simp_all add: a parse_fields_def)
      qed
    qed
  qed
  with m JObj show ?thesis by (simp add: parse_def)
qed (simp_all add: parse_def)

lemma dispatch_post_forum:
  "dispatch routes POST ''/api/community-forum'' = Inr (Some (True, CreateThread, []))"
  by code_simp

lemma parse_thread_without_timestamp:
  "parse e createEcoCommunityForumInputSchema
     (JObj [(''user_id'', JStr ''user1''), (''thread_title'', JStr ''Composting''),
            (''content'', JStr ''How do you start?'')])
     = Inl (ZodError [''created_at''])"
  by (simp add: parse_def parse_fields_def parse_base_def createEcoCommunityForumInputSchema_def)







































































lemma bearer_nul: "bearer_token (Some ''Bearer token-nul'') = Some ''token-nul''"
  by (simp add: bearer_token_def)



lemma oversize_test: "oversize test_env s = (2000 < length s)"
  by (simp add: test_env_def)

section \<open>Claims\<close>

text \<open>
  C1 (user search). The claim: every authenticated \<^verbatim>\<open>GET /api/users/search\<close> with valid
  query parameters is answered 200 with the filtered, sorted and paginated sequence of
  users. The code registers \<^verbatim>\<open>/api/users/:user_id\<close> before \<^verbatim>\<open>/api/users/search\<close>, so
  the request is taken by the handler that reads one user, with \<^verbatim>\<open>user_id = 'search'\<close>:
  for an authenticated request the application answers what \<open>getUser\<close> answers for the
  id \<^verbatim>\<open>search\<close>, which is never a sequence.
\<close>

theorem users_search_shadowed:
  assumes "req_method req = GET" and "req_path req = ''/api/users/search''"
    and "authenticateToken e i d req = Inr user"
  shows "app e i d req = getUser e i d ''search''
       \<and> content (snd (app e i d req)) \<noteq> Json (JArr js)"
  using assms
  by (simp add: app_def dispatch_users_search arg_def getUser_not_array)

theorem users_search_shadowed_witness:
  "app test_env test_io seed
      \<lparr>req_method = GET, req_path = ''/api/users/search'', query = JObj [],
       authorization = Some ''Bearer token-user1'', body = JObj []\<rparr>
     = (seed, not_found test_env test_io ''User not found'' ''USER_NOT_FOUND'')"
  using users_search_shadowed [of
      "\<lparr>req_method = GET, req_path = ''/api/users/search'', query = JObj [],
        authorization = Some ''Bearer token-user1'', body = JObj []\<rparr>"
      test_env test_io seed
      "[(''id'', SText ''user1''), (''email'', SText ''john.doe@example.com''),
        (''name'', SText ''John Doe''), (''created_at'', SText ''2023-10-01T10:00:00Z'')]"]
  by (simp add: auth_user1 getUser_def sql_select_def refused_def matching_def col_def)

text \<open>
  C5 (deleting an event). The claim: \<^verbatim>\<open>DELETE /api/events/:id\<close> removes the event and
  answers 200. The application registers no route for the method \<^verbatim>\<open>DELETE\<close>: whatever
  the path, no handler runs and the store stays as it was; the answer is Express's own
  404, except that it is Express's own 400 where the path is that of some route (of
  another method) and holds a parameter that cannot be decoded.
  \<^verbatim>\<open>DELETE /api/events/event1\<close> gets the 404. Nor is there a route that reads one event:
  \<^verbatim>\<open>GET /api/events/event1\<close> gets the same 404 while the event is stored.
\<close>

theorem delete_event_unrouted:
  "app e i d \<lparr>req_method = DELETE, req_path = p, query = q, authorization = a, body = b\<rparr>
     = (d, if list_ex (\<lambda>(m, rp, g, h). case match_path rp p of None \<Rightarrow> False
                                         | Some raw \<Rightarrow> decode_params raw = None) routes
           then \<lparr>status = 400, content = BadParam\<rparr>
           else \<lparr>status = 404, content = NoRoute\<rparr>)
   \<and> app e i d \<lparr>req_method = DELETE, req_path = ''/api/events/event1'', query = q,
                 authorization = a, body = b\<rparr>
     = (d, \<lparr>status = 404, content = NoRoute\<rparr>)
   \<and> app e i d \<lparr>req_method = GET, req_path = ''/api/events/event1'', query = q, authorization = a,
                 body = b\<rparr>
     = (d, \<lparr>status = 404, content = NoRoute\<rparr>)"
proof -
  have "app e i d \<lparr>req_method = DELETE, req_path = p, query = q, authorization = a, body = b\<rparr>
     = (d, if list_ex (\<lambda>(m, rp, g, h). case match_path rp p of None \<Rightarrow> False
                                         | Some raw \<Rightarrow> decode_params raw = None) routes
           then \<lparr>status = 400, content = BadParam\<rparr>
           else \<lparr>status = 404, content = NoRoute\<rparr>)"
    by (simp add: app_def dispatch_delete [of p])
  then show ?thesis
    by (simp add: app_def dispatch_delete_event1 dispatch_get_event1)
qed

text \<open>
  C2 (authentication guard). The claim: on a protected route a missing bearer token is
  rejected with 401 \<^verbatim>\<open>AUTH_TOKEN_MISSING\<close>, a forged or expired token with 401
  \<^verbatim>\<open>AUTH_TOKEN_INVALID\<close>, a valid token whose user exists proceeds to the handler, and
  \<^verbatim>\<open>AUTH_USER_NOT_FOUND\<close> is returned when the user no longer exists. The guard answers a
  token that does not verify with 403, not 401; the counterexample is a request with a
  token \<^verbatim>\<open>jwt.verify\<close> rejects.
\<close>

theorem invalid_token_is_403:
  "jwt_verify test_env (now test_io) ''forged'' = None
   \<and> status (snd (app test_env test_io seed (dashboard_request (Some ''Bearer forged'')))) = 403
   \<and> status (snd (app test_env test_io seed (dashboard_request (Some ''Bearer forged'')))) \<noteq> 401"
  unfolding app_guarded [OF dispatch_dashboard_request] auth_forged
  by (simp add: reply_def test_env_def)

text \<open>
  C2 as amended: for every request that a route guarded by \<^verbatim>\<open>authenticateToken\<close> takes,
  a missing token (no header, or no second piece after the space) is answered 401
  \<^verbatim>\<open>AUTH_TOKEN_MISSING\<close>. Whatever fails once a token was found is answered 403
  \<^verbatim>\<open>AUTH_TOKEN_INVALID\<close>: a token that \<^verbatim>\<open>jwt.verify\<close> rejects, a verified payload that is
  null, and a user id in the payload that the database refuses as a parameter, because it
  holds a NUL character. A token that verifies and whose user id the database accepts
  but finds no user for is answered 401 \<^verbatim>\<open>AUTH_USER_NOT_FOUND\<close>. In all these cases the
  store is untouched. A token that verifies and names a stored user lets the route's
  handler run, with the public columns of that user as \<^verbatim>\<open>req.user\<close>.
\<close>

theorem guard_outcomes:
  assumes "dispatch routes (req_method req) (req_path req) = Inr (Some (True, h, params))"
  shows
    "(bearer_token (authorization req) = None \<or> bearer_token (authorization req) = Some [] \<longrightarrow>
        app e i d req =
          (d, reply 401 (createErrorResponse e i ''Access token required'' None ''AUTH_TOKEN_MISSING'')))
   \<and> (\<forall>t. bearer_token (authorization req) = Some t \<and> t \<noteq> [] \<and> jwt_verify e (now i) t = None \<longrightarrow>
        app e i d req =
          (d, reply 403 (createErrorResponse e i ''Invalid or expired token''
                 (Some JsonWebTokenError) ''AUTH_TOKEN_INVALID'')))
   \<and> (\<forall>t. bearer_token (authorization req) = Some t \<and> t \<noteq> []
          \<and> jwt_verify e (now i) t = Some JNull \<longrightarrow>
        app e i d req =
          (d, reply 403 (createErrorResponse e i ''Invalid or expired token''
                 (Some TypeError) ''AUTH_TOKEN_INVALID'')))
   \<and> (\<forall>t decoded. bearer_token (authorization req) = Some t \<and> t \<noteq> []
          \<and> jwt_verify e (now i) t = Some decoded \<and> decoded \<noteq> JNull
          \<and> has_nul (pg_param e (field ''user_id'' decoded)) \<longrightarrow>
        app e i d req =
          (d, reply 403 (createErrorResponse e i ''Invalid or expired token''
                 (Some PgError) ''AUTH_TOKEN_INVALID'')))
   \<and> (\<forall>t decoded. bearer_token (authorization req) = Some t \<and> t \<noteq> []
          \<and> jwt_verify e (now i) t = Some decoded \<and> decoded \<noteq> JNull
          \<and> \<not> has_nul (pg_param e (field ''user_id'' decoded))
          \<and> matching d users ''id'' (pg_param e (field ''user_id'' decoded)) = [] \<longrightarrow>
        app e i d req =
          (d, reply 401 (createErrorResponse e i ''User not found'' None ''AUTH_USER_NOT_FOUND'')))
   \<and> (\<forall>t decoded u us. bearer_token (authorization req) = Some t \<and> t \<noteq> []
          \<and> jwt_verify e (now i) t = Some decoded \<and> decoded \<noteq> JNull
          \<and> \<not> has_nul (pg_param e (field ''user_id'' decoded))
          \<and> matching d users ''id'' (pg_param e (field ''user_id'' decoded)) = u # us \<longrightarrow>
        app e i d req = run h e i d req params (project public_columns u))"
  using assms
  by (auto simp add: app_guarded authenticateToken_def sql_select_def refused_def)

theorem guard_outcomes_witness:
  "app test_env test_io seed (dashboard_request None) =
     (seed, reply 401 (createErrorResponse test_env test_io ''Access token required'' None ''AUTH_TOKEN_MISSING''))
   \<and> app test_env test_io seed (dashboard_request (Some ''Bearer forged'')) =
     (seed, reply 403 (createErrorResponse test_env test_io ''Invalid or expired token''
                 (Some JsonWebTokenError) ''AUTH_TOKEN_INVALID''))
   \<and> app test_env test_io seed (dashboard_request (Some ''Bearer token-nul'')) =
     (seed, reply 403 (createErrorResponse test_env test_io ''Invalid or expired token''
                 (Some PgError) ''AUTH_TOKEN_INVALID''))
   \<and> app test_env test_io seed (dashboard_request (Some ''Bearer token-gone'')) =
     (seed, reply 401 (createErrorResponse test_env test_io ''User not found'' None ''AUTH_USER_NOT_FOUND''))
   \<and> app test_env test_io seed (dashboard_request (Some ''Bearer token-user1'')) =
     getDashboard test_env test_io seed ''user1''"
proof -
  note g = guard_outcomes [OF dispatch_dashboard_request, of _ test_env test_io seed]
  have 1: "bearer_token (authorization (dashboard_request None)) = None"
    by (simp add: dashboard_request_def bearer_token_def)
  have 2: "bearer_token (authorization (dashboard_request (Some ''Bearer forged''))) = Some ''forged''"
    "jwt_verify test_env (now test_io) ''forged'' = None"
    by (simp_all add: dashboard_request_def bearer_forged test_env_def)
  have 3: "bearer_token (authorization (dashboard_request (Some ''Bearer token-gone''))) = Some ''token-gone''"
    "jwt_verify test_env (now test_io) ''token-gone'' = Some (JObj [(''user_id'', JStr ''user9'')])"
    "matching seed users ''id'' (pg_param test_env (field ''user_id'' (JObj [(''user_id'', JStr ''user9'')]))) = []"
    by (simp_all add: dashboard_request_def bearer_gone test_env_def matching_def col_def)
  have 4: "bearer_token (authorization (dashboard_request (Some ''Bearer token-user1''))) = Some ''token-user1''"
    "jwt_verify test_env (now test_io) ''token-user1'' = Some (JObj [(''user_id'', JStr ''user1'')])"
    "matching seed users ''id'' (pg_param test_env (field ''user_id'' (JObj [(''user_id'', JStr ''user1'')])))
       = [hd (seed users)]"
    by (simp_all add: dashboard_request_def bearer_token_user1 test_env_def matching_def col_def)
  have 5: "bearer_token (authorization (dashboard_request (Some ''Bearer token-nul''))) = Some ''token-nul''"
    "jwt_verify test_env (now test_io) ''token-nul'' = Some (JObj [(''user_id'', JStr [CHR 0x00])])"
    by (simp_all add: dashboard_request_def bearer_nul test_env_def)
  show ?thesis
    using g [of None] g [of "Some ''Bearer forged''"] g [of "Some ''Bearer token-gone''"]
      g [of "Some ''Bearer token-user1''"] g [of "Some ''Bearer token-nul''"] 1 2 3 4 5
    by (simp add: arg_def)
qed

text \<open>
  C3 (duplicate registration). The claim: a registration whose email, lower-cased and
  trimmed, equals the stored email of a user is answered 400 \<^verbatim>\<open>USER_ALREADY_EXISTS\<close>
  before any insert. The handler looks the email up as it was submitted and lower-cases
  it only for the insert: when the submitted text differs from the stored email in case,
  the lookup finds nothing, the insert runs into the \<^verbatim>\<open>UNIQUE\<close> constraint and the answer
  is 500 \<^verbatim>\<open>INTERNAL_SERVER_ERROR\<close>. No row is added.
\<close>

theorem register_duplicate_in_other_case:
  assumes "req_method req = POST" and "req_path req = ''/api/auth/register''"
    and "body req = JObj [(''email'', JStr em), (''name'', JStr nm), (''password_hash'', JStr pw)]"
    and "is_email e em" and "nm \<noteq> []" and "pw \<noteq> []"
    and "list_all (\<lambda>r. col ''email'' r \<noteq> SText em) (d users)"
    and "list_ex (\<lambda>r. col ''email'' r = SText (trim (toLowerCase em))) (d users)"
  shows "app e i d req = (d, internal_error e i PgError)"
proof -
  have sel: "matching d users ''email'' (SText em) = []"
    using assms(7) by (rule matching_empty)
  have cnt: "0 < count_list (map (col ''email'') (d users)) (SText (trim (toLowerCase em)))"
    using assms(8) by (rule count_list_pos)
  have "register e i d req = (d, internal_error e i PgError)"
    using assms(3-6) sel cnt
    by (simp add: register_def parse_createUser_ok param_def vget_def str_def sql_select_def
        sql_insert_def violates_def col_def)
  then show ?thesis
    using assms(1,2) by (simp add: app_def dispatch_register)
qed

theorem register_duplicate_in_other_case_witness:
  "app test_env test_io seed (register_request ''John.Doe@Example.com'')
     = (seed, internal_error test_env test_io PgError)
   \<and> status (internal_error test_env test_io PgError) = 500"
  using register_duplicate_in_other_case [of "register_request ''John.Doe@Example.com''"
      "''John.Doe@Example.com''" "''Duplicate User''" "''duplicatepassword''" test_env seed test_io]
  by (simp add: register_request_def lower_john col_def test_env_def internal_error_def reply_def)

text \<open>
  C10 (credential in the registration response). Every registration answered 201 returns
  the row as it was stored, its \<^verbatim>\<open>password_hash\<close> (the one submitted) included, with
  the token appended; whereas no JSON answer to a request that the route
  \<^verbatim>\<open>GET /api/users/:user_id\<close> takes, be it the user, a 404 or a rejection by the guard,
  has a \<^verbatim>\<open>password_hash\<close> field.
\<close>

theorem register_exposes_password_hash:
  "(req_method req = POST \<and> req_path req = ''/api/auth/register''
      \<and> status (snd (app e i d req)) = 201 \<longrightarrow>
      (\<exists>row tok pw.
           snd (app e i d req) = reply 201 (JObj (js_fields row @ [(''token'', JStr tok)]))
         \<and> row \<in> set (fst (app e i d req) users)
         \<and> field ''password_hash'' (body req) = Some (JStr pw)
         \<and> col ''password_hash'' row = SText pw
         \<and> field ''password_hash'' (JObj (js_fields row @ [(''token'', JStr tok)])) = Some (JStr pw)
         \<and> field ''token'' (JObj (js_fields row @ [(''token'', JStr tok)])) = Some (JStr tok)))
   \<and> (dispatch routes (req_method req') (req_path req') = Inr (Some (True, GetUser, params))
      \<and> content (snd (app e i d req')) = Json j \<longrightarrow> field ''password_hash'' j = None)"
proof (intro conjI impI)
  assume a: "req_method req = POST \<and> req_path req = ''/api/auth/register''
      \<and> status (snd (app e i d req)) = 201"
  then have "app e i d req = register e i d req"
    by (simp add: app_def dispatch_register)
  with a register_created [of e i d req] show "\<exists>row tok pw.
           snd (app e i d req) = reply 201 (JObj (js_fields row @ [(''token'', JStr tok)]))
         \<and> row \<in> set (fst (app e i d req) users)
         \<and> field ''password_hash'' (body req) = Some (JStr pw)
         \<and> col ''password_hash'' row = SText pw
         \<and> field ''password_hash'' (JObj (js_fields row @ [(''token'', JStr tok)])) = Some (JStr pw)
         \<and> field ''token'' (JObj (js_fields row @ [(''token'', JStr tok)])) = Some (JStr tok)"
    by simp
next
  assume b: "dispatch routes (req_method req') (req_path req') = Inr (Some (True, GetUser, params))
      \<and> content (snd (app e i d req')) = Json j"
  show "field ''password_hash'' j = None"
  proof (cases "authenticateToken e i d req'")
    case (Inl r)
    then obtain n m err c where "r = reply n (createErrorResponse e i m err c)"
      using authenticateToken_rejection by blast
    with b Inl show ?thesis
      by (auto simp add: app_guarded content_reply error_has_no_password_hash)
  next
    case (Inr user)
    with b show ?thesis
      by (auto simp add: app_guarded dest: getUser_no_password_hash)
  qed
qed

theorem register_exposes_password_hash_witness:
  "status (snd (app test_env test_io seed (register_request ''new_user@example.com''))) = 201
   \<and> (\<exists>row tok pw.
           snd (app test_env test_io seed (register_request ''new_user@example.com''))
             = reply 201 (JObj (js_fields row @ [(''token'', JStr tok)]))
         \<and> row \<in> set (fst (app test_env test_io seed (register_request ''new_user@example.com'')) users)
         \<and> field ''password_hash'' (body (register_request ''new_user@example.com'')) = Some (JStr pw)
         \<and> col ''password_hash'' row = SText pw
         \<and> field ''password_hash'' (JObj (js_fields row @ [(''token'', JStr tok)])) = Some (JStr pw)
         \<and> field ''token'' (JObj (js_fields row @ [(''token'', JStr tok)])) = Some (JStr tok))
   \<and> content (snd (app test_env test_io seed (user_request (Some ''Bearer token-user1''))))
        = Json (JObj [(''id'', JStr ''user2''), (''email'', JStr ''jane.smith@example.com''),
             (''name'', JStr ''Jane Smith''), (''created_at'', JStr ''2023-10-01T11:00:00Z'')])
   \<and> field ''password_hash''
         (JObj [(''id'', JStr ''user2''), (''email'', JStr ''jane.smith@example.com''),
             (''name'', JStr ''Jane Smith''), (''created_at'', JStr ''2023-10-01T11:00:00Z'')]) = None"
proof -
  have m: "req_method (register_request ''new_user@example.com'') = POST"
    "req_path (register_request ''new_user@example.com'') = ''/api/auth/register''"
    by (simp_all add: register_request_def)
  have r: "app test_env test_io seed (register_request ''new_user@example.com'')
             = register test_env test_io seed (register_request ''new_user@example.com'')"
    by (simp add: app_def m dispatch_register)
  have s: "status (snd (app test_env test_io seed (register_request ''new_user@example.com''))) = 201"
    by (simp add: r register_new_user status_reply)
  have g: "dispatch routes (req_method (user_request (Some ''Bearer token-user1'')))
             (req_path (user_request (Some ''Bearer token-user1'')))
           = Inr (Some (True, GetUser, [(''user_id'', ''user2'')]))"
    by (simp add: user_request_def dispatch_users_user2)
  have c: "content (snd (app test_env test_io seed (user_request (Some ''Bearer token-user1''))))
        = Json (JObj [(''id'', JStr ''user2''), (''email'', JStr ''jane.smith@example.com''),
        (''name'', JStr ''Jane Smith''), (''created_at'', JStr ''2023-10-01T11:00:00Z'')])"
    by (simp add: get_user2 content_reply)
  from register_exposes_password_hash [of "register_request ''new_user@example.com''"
      test_env test_io seed "user_request (Some ''Bearer token-user1'')"
      "[(''user_id'', ''user2'')]"
      "JObj [(''id'', JStr ''user2''), (''email'', JStr ''jane.smith@example.com''),
        (''name'', JStr ''Jane Smith''), (''created_at'', JStr ''2023-10-01T11:00:00Z'')]"]
  show ?thesis
    using m s g c by blast
qed

text \<open>
  C9 (impact calculator created on first read). For an authenticated
  \<^verbatim>\<open>GET /api/impact-calculator/:user_id\<close> that names a stored user without a calculator
  row, and a fresh identifier from \<^verbatim>\<open>randomUUID\<close> (both free of NUL characters, as
  stored ids and generated identifiers are, and the identifier of a size that fits the
  index of the primary key), the answer is not 404: the handler
  appends a row with that identifier, the user's id and three nulls, and answers 200 with
  this record; the next authenticated read of the same path answers 200 with the same
  record and leaves the store as the first read left it.
\<close>

theorem impact_calculator_lazily_created:
  assumes "dispatch routes (req_method req) (req_path req)
             = Inr (Some (True, GetImpactCalculator, [(''user_id'', u)]))"
    and "authenticateToken e i d req = Inr user"
    and "list_ex (\<lambda>r. col ''id'' r = SText u) (d users)"
    and "list_all (\<lambda>r. col ''user_id'' r \<noteq> SText u) (d impact_calculators)"
    and "list_all (\<lambda>r. col ''id'' r \<noteq> SText (uuid i)) (d impact_calculators)"
    and "CHR 0x00 \<notin> set u" and "CHR 0x00 \<notin> set (uuid i)" and "\<not> oversize e (uuid i)"
    and "authenticateToken e i' (fst (app e i d req)) req = Inr user'"
  shows "app e i d req =
           (d(impact_calculators := d impact_calculators @
                [[(''id'', SText (uuid i)), (''user_id'', SText u), (''travel_habits'', SNull),
                  (''energy_consumption'', SNull), (''waste_management'', SNull)]]),
            reply 200 (JObj [(''id'', JStr (uuid i)), (''user_id'', JStr u), (''travel_habits'', JNull),
                  (''energy_consumption'', JNull), (''waste_management'', JNull)]))
       \<and> app e i' (fst (app e i d req)) req =
           (fst (app e i d req),
            reply 200 (JObj [(''id'', JStr (uuid i)), (''user_id'', JStr u), (''travel_habits'', JNull),
                  (''energy_consumption'', JNull), (''waste_management'', JNull)]))"
proof -
  have first: "app e i d req =
           (d(impact_calculators := d impact_calculators @
                [[(''id'', SText (uuid i)), (''user_id'', SText u), (''travel_habits'', SNull),
                  (''energy_consumption'', SNull), (''waste_management'', SNull)]]),
            reply 200 (JObj [(''id'', JStr (uuid i)), (''user_id'', JStr u), (''travel_habits'', JNull),
                  (''energy_consumption'', JNull), (''waste_management'', JNull)]))"
    using assms(2) getImpactCalculator_first [OF assms(3,4,5,6,7,8)]
    by (simp add: app_guarded [OF assms(1)] arg_def js_row_def js_fields_def)
  have "app e i' (fst (app e i d req)) req =
          getImpactCalculator e i' (fst (app e i d req)) u"
    using assms(9) by (simp add: app_guarded [OF assms(1)] arg_def)
  then have "app e i' (fst (app e i d req)) req =
           (fst (app e i d req),
            reply 200 (JObj [(''id'', JStr (uuid i)), (''user_id'', JStr u), (''travel_habits'', JNull),
                  (''energy_consumption'', JNull), (''waste_management'', JNull)]))"
    using getImpactCalculator_again [where d = d, OF assms(4) assms(6), of e i' "uuid i"]
    by (simp add: first js_row_def js_fields_def)
  with first show ?thesis by simp
qed

theorem impact_calculator_lazily_created_witness:
  "app test_env test_io seed calculator_request =
     (seed(impact_calculators := seed impact_calculators @
                [[(''id'', SText ''0b5c4f0e''), (''user_id'', SText ''user2''), (''travel_habits'', SNull),
                  (''energy_consumption'', SNull), (''waste_management'', SNull)]]),
      reply 200 (JObj [(''id'', JStr ''0b5c4f0e''), (''user_id'', JStr ''user2''), (''travel_habits'', JNull),
                  (''energy_consumption'', JNull), (''waste_management'', JNull)]))
   \<and> app test_env \<lparr>uuid = ''77aa'', now = 1700000000001\<rparr>
         (fst (app test_env test_io seed calculator_request)) calculator_request =
     (fst (app test_env test_io seed calculator_request),
      reply 200 (JObj [(''id'', JStr ''0b5c4f0e''), (''user_id'', JStr ''user2''), (''travel_habits'', JNull),
                  (''energy_consumption'', JNull), (''waste_management'', JNull)]))"
proof -
  have dsp: "dispatch routes (req_method calculator_request) (req_path calculator_request)
      = Inr (Some (True, GetImpactCalculator, [(''user_id'', ''user2'')]))"
    by (simp add: calculator_request_def dispatch_calculator_user2)
  have a: "authorization calculator_request = Some ''Bearer token-user1''"
    by (simp add: calculator_request_def)
  have first: "app test_env test_io seed calculator_request =
     (seed(impact_calculators := seed impact_calculators @
                [[(''id'', SText ''0b5c4f0e''), (''user_id'', SText ''user2''), (''travel_habits'', SNull),
                  (''energy_consumption'', SNull), (''waste_management'', SNull)]]),
      reply 200 (JObj [(''id'', JStr ''0b5c4f0e''), (''user_id'', JStr ''user2''), (''travel_habits'', JNull),
                  (''energy_consumption'', JNull), (''waste_management'', JNull)]))"
    unfolding app_guarded [OF dsp] auth_user1 [OF a]
    by (simp add: arg_def getImpactCalculator_def sql_select_def refused_def matching_def
        sql_insert_def violates_def col_def test_io_def oversize_test)
  have second: "authenticateToken test_env \<lparr>uuid = ''77aa'', now = 1700000000001\<rparr>
       (fst (app test_env test_io seed calculator_request)) calculator_request =
     Inr [(''id'', SText ''user1''), (''email'', SText ''john.doe@example.com''),
          (''name'', SText ''John Doe''), (''created_at'', SText ''2023-10-01T10:00:00Z'')]"
    using a by (simp add: auth_user1_any first)
  from impact_calculator_lazily_created [OF dsp auth_user1 [OF a] _ _ _ _ _ _ second]
  show ?thesis
    by (simp add: col_def test_io_def oversize_test first [unfolded test_io_def])
qed

text \<open>
  C7 (update validators). The claim: every update validator treats all fields as
  optional, so that a body with any subset of the entity's fields passes. Each update
  schema declares its first field, the key of the entity (\<^verbatim>\<open>id\<close>, \<^verbatim>\<open>user_id\<close> for
  dashboards, \<^verbatim>\<open>auth_token\<close> for the authentication entity), as a required string: a
  body without it is rejected with a \<open>ZodError\<close> that names the key. The witness is the
  request of the repository's test \<^verbatim>\<open>should update an existing event\<close>, which expects 200
  and is answered 400.
\<close>

theorem update_validators_require_key:
  assumes "S \<in> {updateUserInputSchema, updateUserDashboardInputSchema,
                 updateImpactCalculatorInputSchema, updateEcoCommunityForumInputSchema,
                 updateEventInputSchema, updateResourceLibraryInputSchema,
                 updateAlertInputSchema, updateAuthenticationInputSchema}"
    and "map_of kvs (fst (hd S)) = None"
  shows "\<exists>fs. parse e S (JObj kvs) = Inl (ZodError (fst (hd S) # fs))"
  using assms
  by (auto simp add: parse_key_missing updateUserInputSchema_def updateUserDashboardInputSchema_def
      updateImpactCalculatorInputSchema_def updateEcoCommunityForumInputSchema_def
      updateEventInputSchema_def updateResourceLibraryInputSchema_def
      updateAlertInputSchema_def updateAuthenticationInputSchema_def)

theorem update_validators_require_key_witness:
  "(\<exists>fs. parse test_env updateEventInputSchema (JObj [(''location'', JStr ''Updated Location'')])
          = Inl (ZodError (''id'' # fs)))
   \<and> app test_env test_io seed (patch_event_request (JObj [(''location'', JStr ''Updated Location'')]))
       = (seed, validation_error test_env test_io (ZodError [''id'']))
   \<and> status (validation_error test_env test_io (ZodError [''id''])) = 400"
proof -
  have "\<exists>fs. parse test_env updateEventInputSchema (JObj [(''location'', JStr ''Updated Location'')])
          = Inl (ZodError (fst (hd updateEventInputSchema) # fs))"
    by (rule update_validators_require_key) (simp_all add: updateEventInputSchema_def)
  then have "\<exists>fs. parse test_env updateEventInputSchema (JObj [(''location'', JStr ''Updated Location'')])
          = Inl (ZodError (''id'' # fs))"
    by (simp add: updateEventInputSchema_def)
  moreover have "app test_env test_io seed (patch_event_request (JObj [(''location'', JStr ''Updated Location'')]))
       = (seed, validation_error test_env test_io (ZodError [''id'']))"
    by (simp add: app_patch_event updateEvent_def body_patch_event_request parse_location_only)
  ultimately show ?thesis
    by (simp add: validation_error_def status_reply)
qed

text \<open>
  C6 (creation timestamp). The claim: a create request for a forum thread or an alert
  that omits \<^verbatim>\<open>created_at\<close> gets a timestamp from the server and the answer 201. Both
  create schemas declare \<^verbatim>\<open>created_at: z.coerce.date()\<close> without \<^verbatim>\<open>optional()\<close>, and
  \<^verbatim>\<open>new Date(undefined)\<close> is an invalid date: every authenticated request without the
  field is answered 400 \<^verbatim>\<open>VALIDATION_ERROR\<close> and stores nothing. The handlers' fallback
  \<^verbatim>\<open>new Date().toISOString()\<close> is never reached.
\<close>

theorem create_without_timestamp_rejected:
  assumes "dispatch routes (req_method req) (req_path req) = Inr (Some (True, h, params))"
    and "h = CreateThread \<or> h = CreateAlert"
    and "authenticateToken e i d req = Inr user"
    and "field ''created_at'' (body req) = None"
  shows "\<exists>fs. app e i d req = (d, validation_error e i (ZodError fs))"
proof -
  from assms(2) show ?thesis
  proof
    assume h: "h = CreateThread"
    obtain fs where "parse e createEcoCommunityForumInputSchema (body req) = Inl (ZodError fs)"
      using parse_created_at_missing [OF assms(4), of createEcoCommunityForumInputSchema e]
      by (auto simp add: createEcoCommunityForumInputSchema_def)
    then show ?thesis
      using assms(3) h by (auto simp add: app_guarded [OF assms(1)] createThread_def)
  next
    assume h: "h = CreateAlert"
    obtain fs where "parse e createAlertInputSchema (body req) = Inl (ZodError fs)"
      using parse_created_at_missing [OF assms(4), of createAlertInputSchema e]
      by (auto simp add: createAlertInputSchema_def)
    then show ?thesis
      using assms(3) h by (auto simp add: app_guarded [OF assms(1)] createAlert_def)
  qed
qed

theorem create_without_timestamp_rejected_witness:
  "app test_env test_io seed
     (thread_request (JObj [(''user_id'', JStr ''user1''), (''thread_title'', JStr ''Composting''),
                            (''content'', JStr ''How do you start?'')]))
     = (seed, validation_error test_env test_io (ZodError [''created_at'']))
   \<and> status (validation_error test_env test_io (ZodError [''created_at''])) = 400"
proof -
  let ?req = "thread_request (JObj [(''user_id'', JStr ''user1''), (''thread_title'', JStr ''Composting''),
                            (''content'', JStr ''How do you start?'')])"
  have dsp: "dispatch routes (req_method ?req) (req_path ?req) = Inr (Some (True, CreateThread, []))"
    by (simp add: thread_request_def dispatch_post_forum)
  have a: "authorization ?req = Some ''Bearer token-user1''"
    by (simp add: thread_request_def)
  have b: "body ?req = JObj [(''user_id'', JStr ''user1''), (''thread_title'', JStr ''Composting''),
                            (''content'', JStr ''How do you start?'')]"
    by (simp add: thread_request_def)
  have "\<exists>fs. app test_env test_io seed ?req = (seed, validation_error test_env test_io (ZodError fs))"
    by (rule create_without_timestamp_rejected [OF dsp _ auth_user1 [OF a]]) (simp_all add: b)
  moreover have "app test_env test_io seed ?req
      = (seed, validation_error test_env test_io (ZodError [''created_at'']))"
    by (simp add: app_guarded [OF dsp] auth_user1 [OF a] createThread_def b
        parse_thread_without_timestamp)
  ultimately show ?thesis
    by (simp add: validation_error_def status_reply)
qed







end
